theory Spec2Isabelle
  imports Complex_Main
begin

section \<open>Data model\<close>

text \<open>
  The services of the backend (\<open>appointment.service.ts\<close>, \<open>doctor.service.ts\<close>,
  \<open>notification.service.ts\<close>, \<open>websocket.service.ts\<close>) are embedded as functions over
  an explicit state: the tables reached through the Prisma client, the module variable
  \<open>webSocketService\<close> of the notification service, and a log of the store writes and
  transport emits of \<open>createNotification\<close> in the order they are executed.

  Conventions of the embedding:
  \<^item> a JavaScript \<open>Date\<close> is its number of milliseconds since the epoch (\<open>int\<close>); a date
    received as a string is taken after \<open>new Date(...)\<close>, and an absent or empty date
    string is \<open>None\<close>;
  \<^item> \<open>new Date()\<close> is the parameter \<open>now\<close> of an operation;
  \<^item> \<open>toLocaleDateString\<close> is a parameter \<open>fmt\<close> of the operations that format a date;
  \<^item> amounts (\<open>price\<close>, \<open>unit_cost\<close>, \<open>total_cost\<close>, \<open>total_amount\<close>, \<open>discount\<close>) are
    JavaScript numbers, that is IEEE 754 double precision values, and \<open>+\<close>, \<open>-\<close>, \<open>*\<close>, \<open>/\<close>
    on them round to the nearest double (section \<open>JavaScript numbers\<close>); a quantity is
    an integer, converted to a number where it is multiplied;
  \<^item> numeric keys are \<open>int\<close>; the generated key of a notification is the value of a
    counter; keys of new rows come from sequences kept in the state;
  \<^item> an optional field or argument is an \<open>option\<close>; the truthiness tests of the source
    (\<open>if (x)\<close>, \<open>x ? a : b\<close>, \<open>x || 0\<close>) are written out;
  \<^item> the emoji of the notification titles are written as ASCII short names;
  \<^item> \<open>throw new Error(m)\<close> and \<open>return { error: m }\<close> are \<open>Inl (Error m)\<close>; a Prisma
    \<open>update\<close> or \<open>delete\<close> of a missing row is \<open>Inl RecordNotFound\<close>, and reading a
    field of a required relation that is absent is \<open>Inl TypeError\<close>. Every operation
    returns its outcome together with the state it leaves, since some operations write
    before they throw;
  \<^item> the store is available: a query fails only where Prisma rejects a missing row, and
    requests are handled one at a time.
\<close>

section \<open>JavaScript numbers\<close>

text \<open>
  A number is a double: a finite value, given by the rational it denotes (\<open>Finite 0\<close> is
  the positive zero), the negative zero, an infinity or \<open>NaN\<close>. The result of an
  operation is the exact result rounded to the nearest double, a tie going to the double
  with an even significand: a double is an integer multiple \<open>m * 2 ^ (e - 52)\<close> with
  \<open>m < 2 ^ 53\<close> and \<open>-1022 \<le> e \<le> 1023\<close>, values too large become an infinity, values
  too small a zero of their sign.
\<close>

datatype number = Finite rat | NegZero | Infinity | NegInfinity | NaN

text \<open>\<open>2\<close> to an integer power, the number of binary digits of a positive integer and the
  exponent \<open>e\<close> with \<open>2 ^ e \<le> a < 2 ^ (e + 1)\<close> of a positive rational.\<close>

definition pow2 :: "int \<Rightarrow> rat" where
  "pow2 k = (if 0 \<le> k then 2 ^ nat k else 1 / 2 ^ nat (- k))"

function bit_length :: "int \<Rightarrow> nat" where
  "bit_length n = (if n \<le> 0 then 0 else Suc (bit_length (n div 2)))"
  by pat_completeness auto
termination
  by (relation "measure nat") auto

declare bit_length.simps [simp del]

definition floor_log2 :: "rat \<Rightarrow> int" where
  "floor_log2 a =
     (let (p, q) = quotient_of a;
          d = int (bit_length p) - int (bit_length q)
      in if pow2 d \<le> a then d else d - 1)"

text \<open>Rounding to the nearest integer, ties to even, and to the nearest double.\<close>

definition round_half_even :: "rat \<Rightarrow> int" where
  "round_half_even r =
     (let f = \<lfloor>r\<rfloor>; d = r - of_int f
      in if d < 1 / 2 then f
         else if 1 / 2 < d then f + 1
         else if even f then f else f + 1)"

definition round64 :: "rat \<Rightarrow> number" where
  "round64 x =
     (if x = 0 then Finite 0
      else
        (let e = max (floor_log2 \<bar>x\<bar>) (- 1022);
             ulp = pow2 (e - 52);
             m = round_half_even (\<bar>x\<bar> / ulp)
         in if 1024 \<le> e \<or> (e = 1023 \<and> m = 2 ^ 53)
            then (if 0 < x then Infinity else NegInfinity)
            else if m = 0 then (if 0 < x then Finite 0 else NegZero)
            else Finite (if 0 < x then of_int m * ulp else - (of_int m * ulp))))"

text \<open>The operations \<open>-x\<close>, \<open>x + y\<close>, \<open>x - y\<close>, \<open>x * y\<close>, \<open>x / y\<close> on numbers, the truthiness
  of a number (\<open>0\<close>, \<open>-0\<close> and \<open>NaN\<close> are false) and the number an integer denotes.\<close>

definition is_zero :: "number \<Rightarrow> bool" where
  "is_zero a = (a = Finite 0 \<or> a = NegZero)"

definition is_infinite :: "number \<Rightarrow> bool" where
  "is_infinite a = (a = Infinity \<or> a = NegInfinity)"

fun negative :: "number \<Rightarrow> bool" where
  "negative (Finite x) = (x < 0)"
| "negative NegZero = True"
| "negative Infinity = False"
| "negative NegInfinity = True"
| "negative NaN = False"

fun magnitude :: "number \<Rightarrow> rat" where
  "magnitude (Finite x) = \<bar>x\<bar>"
| "magnitude a = 0"

fun js_neg :: "number \<Rightarrow> number" where
  "js_neg (Finite x) = (if x = 0 then NegZero else Finite (- x))"
| "js_neg NegZero = Finite 0"
| "js_neg Infinity = NegInfinity"
| "js_neg NegInfinity = Infinity"
| "js_neg NaN = NaN"

definition with_sign :: "bool \<Rightarrow> number \<Rightarrow> number" where
  "with_sign neg a = (if neg then js_neg a else a)"

fun js_add :: "number \<Rightarrow> number \<Rightarrow> number" where
  "js_add (Finite x) (Finite y) = round64 (x + y)"
| "js_add (Finite x) NegZero = Finite x"
| "js_add NegZero (Finite y) = Finite y"
| "js_add NegZero NegZero = NegZero"
| "js_add NaN b = NaN"
| "js_add a NaN = NaN"
| "js_add Infinity NegInfinity = NaN"
| "js_add NegInfinity Infinity = NaN"
| "js_add Infinity b = Infinity"
| "js_add NegInfinity b = NegInfinity"
| "js_add a Infinity = Infinity"
| "js_add a NegInfinity = NegInfinity"

definition js_sub :: "number \<Rightarrow> number \<Rightarrow> number" where
  "js_sub a b = js_add a (js_neg b)"

definition js_mul :: "number \<Rightarrow> number \<Rightarrow> number" where
  "js_mul a b =
     (if a = NaN \<or> b = NaN then NaN
      else if is_infinite a \<or> is_infinite b
        then (if is_zero a \<or> is_zero b then NaN
              else with_sign (negative a \<noteq> negative b) Infinity)
      else with_sign (negative a \<noteq> negative b) (round64 (magnitude a * magnitude b)))"

definition js_div :: "number \<Rightarrow> number \<Rightarrow> number" where
  "js_div a b =
     (if a = NaN \<or> b = NaN then NaN
      else if is_infinite a
        then (if is_infinite b then NaN else with_sign (negative a \<noteq> negative b) Infinity)
      else if is_infinite b then with_sign (negative a \<noteq> negative b) (Finite 0)
      else if is_zero b
        then (if is_zero a then NaN else with_sign (negative a \<noteq> negative b) Infinity)
      else with_sign (negative a \<noteq> negative b) (round64 (magnitude a / magnitude b)))"

definition js_truthy :: "number \<Rightarrow> bool" where
  "js_truthy a = (\<not> is_zero a \<and> a \<noteq> NaN)"

definition number_of_int :: "int \<Rightarrow> number" where
  "number_of_int i = round64 (of_int i)"

section \<open>Tables\<close>

datatype AppointmentStatus = PENDING | SCHEDULED | COMPLETED | CANCELLED

datatype error = Error string | RecordNotFound | TypeError

record user =
  u_id :: string
  u_role :: string

record patient =
  pt_id :: string
  pt_user_id :: "string option"
  pt_first_name :: string
  pt_last_name :: string

record doctor =
  d_id :: string
  d_user_id :: "string option"
  d_name :: string
  d_specialization :: string

record appointment =
  a_id :: int
  a_patient_id :: string
  a_doctor_id :: string
  a_appointment_date :: int
  a_time :: string
  a_type :: string
  a_note :: "string option"
  a_status :: AppointmentStatus
  a_reason :: "string option"

record payment =
  p_id :: int
  p_appointment_id :: int
  p_patient_id :: string
  p_bill_date :: int
  p_payment_date :: int
  p_discount :: number
  p_total_amount :: number
  p_amount_paid :: number
  p_payment_method :: string
  p_status :: string
  p_finalized :: bool

record patientBills =
  b_id :: int
  b_bill_id :: int
  b_service_id :: int
  b_service_date :: int
  b_quantity :: int
  b_unit_cost :: number
  b_total_cost :: number

record services =
  s_id :: int
  s_service_name :: string
  s_price :: number

record notification =
  n_id :: nat
  n_userId :: string
  n_title :: string
  n_message :: string
  n_link :: "string option"
  n_isRead :: bool
  n_createdAt :: int

record NotificationPayload =
  np_id :: nat
  np_title :: string
  np_message :: string
  np_link :: "string option"
  np_isRead :: bool
  np_createdAt :: int

text \<open>An event sent through the Socket.IO server: the room (\<open>None\<close> for every socket), the
  event name and the notification carried.\<close>

record emitted =
  e_room :: "string option"
  e_event :: string
  e_payload :: "NotificationPayload option"

record socket =
  sock_id :: string
  sock_userId :: "string option"

record WebSocketService =
  connectedUsers :: "string \<rightharpoonup> string"
  io_emitted :: "emitted list"
  io_rooms :: "(string \<times> string) list"

datatype effect = Persisted nat | Emitted string nat

record state =
  users :: "user list"
  patients :: "patient list"
  doctors :: "doctor list"
  appointments :: "appointment list"
  payments :: "payment list"
  bills :: "patientBills list"
  service_catalog :: "services list"
  notifications :: "notification list"
  appointment_seq :: int
  payment_seq :: int
  bill_seq :: int
  notification_seq :: nat
  webSocketService :: "WebSocketService option"
  effects :: "effect list"

type_synonym 'a outcome = "(error + 'a) \<times> state"

text \<open>\<open>update\<close> of Prisma with \<open>where\<close> on a key, and \<open>delete\<close>.\<close>

definition update_where :: "('a \<Rightarrow> bool) \<Rightarrow> ('a \<Rightarrow> 'a) \<Rightarrow> 'a list \<Rightarrow> 'a list" where
  "update_where P f xs = map (\<lambda>x. if P x then f x else x) xs"

definition delete_where :: "('a \<Rightarrow> bool) \<Rightarrow> 'a list \<Rightarrow> 'a list" where
  "delete_where P xs = filter (\<lambda>x. \<not> P x) xs"

section \<open>Connection registry (websocket.service.ts)\<close>

text \<open>The body of the \<open>connection\<close> handler: a socket without a user id is ignored;
  otherwise the socket joins the room of its user, the registry entry of the user is set
  to the socket id and the welcome event is sent to the socket.\<close>

definition on_connection :: "socket \<Rightarrow> WebSocketService \<Rightarrow> WebSocketService" where
  "on_connection sock ws =
     (case sock_userId sock of
        None \<Rightarrow> ws
      | Some uid \<Rightarrow>
          if uid = [] then ws
          else ws\<lparr> connectedUsers := (connectedUsers ws)(uid \<mapsto> sock_id sock),
                   io_rooms := io_rooms ws @ [(''user_'' @ uid, sock_id sock)],
                   io_emitted := io_emitted ws @
                     [\<lparr> e_room = Some (sock_id sock), e_event = ''connected'', e_payload = None \<rparr>] \<rparr>)"

text \<open>The \<open>disconnect\<close> handler registered by the connection handler on that socket.\<close>

definition on_disconnect :: "socket \<Rightarrow> WebSocketService \<Rightarrow> WebSocketService" where
  "on_disconnect sock ws =
     (case sock_userId sock of
        None \<Rightarrow> ws
      | Some uid \<Rightarrow>
          if uid = [] then ws
          else ws\<lparr> connectedUsers := (connectedUsers ws)(uid := None),
                   io_rooms := filter (\<lambda>(r, sid). sid \<noteq> sock_id sock) (io_rooms ws) \<rparr>)"

definition sendNotificationToUser ::
  "string \<Rightarrow> NotificationPayload \<Rightarrow> WebSocketService \<Rightarrow> WebSocketService" where
  "sendNotificationToUser userId n ws =
     ws\<lparr> io_emitted := io_emitted ws @
          [\<lparr> e_room = Some (''user_'' @ userId), e_event = ''new_notification'',
             e_payload = Some n \<rparr>] \<rparr>"

definition isUserConnected :: "WebSocketService \<Rightarrow> string \<Rightarrow> bool" where
  "isUserConnected ws userId = (connectedUsers ws userId \<noteq> None)"

section \<open>Notification store and dispatch (notification.service.ts)\<close>

record notification_data =
  nd_userId :: string
  nd_title :: string
  nd_message :: string
  nd_link :: "string option"

definition getNotifications :: "state \<Rightarrow> string \<Rightarrow> bool \<Rightarrow> notification list" where
  "getNotifications s userId unread =
     sort_key (\<lambda>n. - n_createdAt n)
       (filter (\<lambda>n. if unread then n_userId n = userId \<and> n_isRead n = False
                     else n_userId n = userId)
          (notifications s))"

definition markNotificationRead :: "nat \<Rightarrow> state \<Rightarrow> notification outcome" where
  "markNotificationRead ident s =
     (case find (\<lambda>n. n_id n = ident) (notifications s) of
        None \<Rightarrow> (Inl RecordNotFound, s)
      | Some n \<Rightarrow>
          (Inr (n\<lparr> n_isRead := True \<rparr>),
           s\<lparr> notifications :=
                update_where (\<lambda>n. n_id n = ident) (\<lambda>n. n\<lparr> n_isRead := True \<rparr>) (notifications s) \<rparr>))"

text \<open>The \<open>notification_read\<close> handler of a socket: the same update, with every error
  caught and dropped.\<close>

definition on_notification_read :: "nat \<Rightarrow> state \<Rightarrow> state" where
  "on_notification_read ident s = snd (markNotificationRead ident s)"

definition createNotification :: "int \<Rightarrow> notification_data \<Rightarrow> state \<Rightarrow> notification \<times> state" where
  "createNotification now d s =
     (let n = \<lparr> n_id = notification_seq s, n_userId = nd_userId d, n_title = nd_title d,
                n_message = nd_message d, n_link = nd_link d, n_isRead = False,
                n_createdAt = now \<rparr>;
          s1 = s\<lparr> notifications := notifications s @ [n],
                  notification_seq := Suc (notification_seq s),
                  effects := effects s @ [Persisted (n_id n)] \<rparr>
      in case webSocketService s1 of
           None \<Rightarrow> (n, s1)
         | Some ws \<Rightarrow>
             (n, s1\<lparr> webSocketService :=
                       Some (sendNotificationToUser (nd_userId d)
                               \<lparr> np_id = n_id n, np_title = n_title n, np_message = n_message n,
                                 np_link = n_link n, np_isRead = n_isRead n,
                                 np_createdAt = n_createdAt n \<rparr> ws),
                     effects := effects s1 @ [Emitted (nd_userId d) (n_id n)] \<rparr>))"

text \<open>\<open>for (const admin of adminUsers) await createNotification(...)\<close>.\<close>

fun createNotifications :: "int \<Rightarrow> notification_data list \<Rightarrow> state \<Rightarrow> state" where
  "createNotifications now [] s = s"
| "createNotifications now (d # ds) s = createNotifications now ds (snd (createNotification now d s))"


section \<open>Strings and dates of the messages\<close>

text \<open>Template literals print a number in decimal.\<close>

definition digit_char :: "nat \<Rightarrow> char" where
  "digit_char d = char_of (of_char CHR ''0'' + d)"

fun decimal_nat :: "nat \<Rightarrow> string" where
  "decimal_nat n =
     (let last_digit = [digit_char (n mod 10)]
      in if n < 10 then last_digit else decimal_nat (n div 10) @ last_digit)"

declare decimal_nat.simps [simp del]

definition decimal_int :: "int \<Rightarrow> string" where
  "decimal_int i = (if 0 \<le> i then decimal_nat (nat i) else CHR ''-'' # decimal_nat (nat (- i)))"

text \<open>\<open>toLowerCase\<close> on the letters A to Z, and \<open>includes\<close>.\<close>

definition lower_char :: "char \<Rightarrow> char" where
  "lower_char c =
     (let n = (of_char c :: nat) in if 65 \<le> n \<and> n \<le> 90 then char_of (n + 32) else c)"

definition toLowerCase :: "string \<Rightarrow> string" where
  "toLowerCase s = map lower_char s"

fun str_includes :: "string \<Rightarrow> string \<Rightarrow> bool" where
  "str_includes [] sub = (sub = [])"
| "str_includes (c # cs) sub = (take (length sub) (c # cs) = sub \<or> str_includes cs sub)"

text \<open>\<open>Math.ceil(timeDiff / (1000 * 3600 * 24))\<close> on a difference of two dates in
  milliseconds.\<close>

definition day_ms :: int where
  "day_ms = 1000 * 3600 * 24"

definition daysDiff :: "int \<Rightarrow> int \<Rightarrow> int" where
  "daysDiff appointmentDate today = - ((- (appointmentDate - today)) div day_ms)"

definition adminUsers :: "state \<Rightarrow> user list" where
  "adminUsers s = filter (\<lambda>u. u_role u = ''ADMIN'') (users s)"

text \<open>\<open>reason ? `Reason: ${reason}` : alt\<close>.\<close>

definition reason_text :: "string option \<Rightarrow> string \<Rightarrow> string" where
  "reason_text reason alt =
     (case reason of
        None \<Rightarrow> alt
      | Some r \<Rightarrow> if r = [] then alt else ''Reason: '' @ r)"

section \<open>Booking and patient-side status change (appointment.service.ts)\<close>

text \<open>The bodies below are taken after \<open>createAppointmentSchema.parse\<close> and
  \<open>updateAppointmentSchema.parse\<close>.\<close>

record CreateAppointmentInput =
  ca_doctor_id :: string
  ca_appointment_date :: int
  ca_time :: string
  ca_type :: string
  ca_note :: "string option"

record UpdateAppointmentInput =
  ua_status :: AppointmentStatus
  ua_reason :: "string option"

definition createAppointmentService ::
  "int \<Rightarrow> int \<Rightarrow> (int \<Rightarrow> string) \<Rightarrow> string \<Rightarrow> CreateAppointmentInput \<Rightarrow> state
     \<Rightarrow> appointment outcome" where
  "createAppointmentService now currentHour fmt userId body s =
     (case find (\<lambda>p. pt_user_id p = Some userId) (patients s) of
        None \<Rightarrow> (Inl (Error ''Patient profile not found''), s)
      | Some patient \<Rightarrow>
     (case find (\<lambda>d. d_id d = ca_doctor_id body) (doctors s) of
        None \<Rightarrow> (Inl (Error ''Doctor not found''), s)
      | Some doctor \<Rightarrow>
     (case find (\<lambda>a. a_doctor_id a = ca_doctor_id body
                     \<and> a_appointment_date a = ca_appointment_date body
                     \<and> a_time a = ca_time body
                     \<and> a_status a \<notin> set [CANCELLED]) (appointments s) of
        Some existingAppointment \<Rightarrow>
          (Inl (Error ''This time slot is already booked for the selected doctor''), s)
      | None \<Rightarrow>
          (let appointment =
                 \<lparr> a_id = appointment_seq s, a_patient_id = pt_id patient,
                   a_doctor_id = ca_doctor_id body,
                   a_appointment_date = ca_appointment_date body, a_time = ca_time body,
                   a_type = ca_type body, a_note = ca_note body, a_status = PENDING,
                   a_reason = None \<rparr>;
               s1 = s\<lparr> appointments := appointments s @ [appointment],
                       appointment_seq := appointment_seq s + 1 \<rparr>;
               appointmentDateStr = fmt (ca_appointment_date body);
               s2 = (case d_user_id doctor of
                       None \<Rightarrow> s1
                     | Some doctor_user_id \<Rightarrow>
                         if doctor_user_id = [] then s1
                         else snd (createNotification now
                           \<lparr> nd_userId = doctor_user_id,
                             nd_title = '':stethoscope: New Appointment Request'',
                             nd_message = pt_first_name patient @ '' '' @ pt_last_name patient
                               @ '' has requested a '' @ ca_type body @ '' appointment on ''
                               @ appointmentDateStr @ '' at '' @ ca_time body
                               @ ''. Please review and approve.'',
                             nd_link = Some (''/doctor/appointments/''
                               @ decimal_int (a_id appointment)) \<rparr> s1));
               s3 = snd (createNotification now
                      \<lparr> nd_userId = userId,
                        nd_title = '':date: Appointment Request Submitted'',
                        nd_message = ''Your '' @ ca_type body @ '' appointment with Dr. ''
                          @ d_name doctor @ '' on '' @ appointmentDateStr @ '' at ''
                          @ ca_time body @ '' has been submitted and is pending approval.'',
                        nd_link = Some (''/appointments/'' @ decimal_int (a_id appointment)) \<rparr>
                      s2);
               s4 = (if (currentHour \<ge> 8 \<and> currentHour \<le> 17)
                        \<or> str_includes (toLowerCase (ca_type body)) ''urgent''
                        \<or> str_includes (toLowerCase (ca_type body)) ''emergency''
                     then createNotifications now
                            (map (\<lambda>admin.
                               \<lparr> nd_userId = u_id admin,
                                 nd_title = '':clipboard: New Appointment Request'',
                                 nd_message = pt_first_name patient @ '' '' @ pt_last_name patient
                                   @ '' booked a '' @ ca_type body @ '' appointment with Dr. ''
                                   @ d_name doctor @ '' for '' @ appointmentDateStr @ '' at ''
                                   @ ca_time body @ ''.'',
                                 nd_link = Some ''/admin/appointments'' \<rparr>) (adminUsers s3))
                            s3
                     else s3)
           in (Inr appointment, s4)))))"

text \<open>The message to the doctor and the alert to an admin on a cancellation by the
  patient.\<close>

definition patient_cancel_notice ::
  "(int \<Rightarrow> string) \<Rightarrow> patient \<Rightarrow> appointment \<Rightarrow> string option \<Rightarrow> string \<Rightarrow> notification_data" where
  "patient_cancel_notice fmt patient existingAppointment reason doctor_user_id =
     \<lparr> nd_userId = doctor_user_id,
       nd_title = '':no_entry_sign: Appointment Cancelled by Patient'',
       nd_message = pt_first_name patient @ '' '' @ pt_last_name patient
         @ '' has cancelled their appointment scheduled for ''
         @ fmt (a_appointment_date existingAppointment) @ '' at '' @ a_time existingAppointment
         @ ''. '' @ reason_text reason [],
       nd_link = Some ''/doctor/appointments'' \<rparr>"

definition patient_cancel_alert ::
  "(int \<Rightarrow> string) \<Rightarrow> patient \<Rightarrow> appointment \<Rightarrow> doctor \<Rightarrow> user \<Rightarrow> notification_data" where
  "patient_cancel_alert fmt patient existingAppointment doctor admin =
     \<lparr> nd_userId = u_id admin,
       nd_title = '':warning: Urgent: Same-Day Appointment Cancellation'',
       nd_message = ''Patient '' @ pt_first_name patient @ '' '' @ pt_last_name patient
         @ '' cancelled appointment with Dr. '' @ d_name doctor @ '' scheduled for ''
         @ fmt (a_appointment_date existingAppointment) @ '' at '' @ a_time existingAppointment
         @ ''. Immediate attention may be required.'',
       nd_link = Some ''/admin/appointments'' \<rparr>"

definition updateAppointmentStatusService ::
  "int \<Rightarrow> (int \<Rightarrow> string) \<Rightarrow> string \<Rightarrow> int \<Rightarrow> UpdateAppointmentInput \<Rightarrow> state
     \<Rightarrow> appointment outcome" where
  "updateAppointmentStatusService now fmt userId appointmentId body s =
     (case find (\<lambda>p. pt_user_id p = Some userId) (patients s) of
        None \<Rightarrow> (Inl (Error ''Patient profile not found''), s)
      | Some patient \<Rightarrow>
     (case find (\<lambda>a. a_id a = appointmentId \<and> a_patient_id a = pt_id patient) (appointments s) of
        None \<Rightarrow> (Inl (Error ''Appointment not found''), s)
      | Some existingAppointment \<Rightarrow>
          if ua_status body = CANCELLED \<and> a_status existingAppointment \<noteq> PENDING
          then (Inl (Error ''Only pending appointments can be cancelled''), s)
          else
            (let s1 = s\<lparr> appointments :=
                        update_where (\<lambda>a. a_id a = appointmentId)
                          (\<lambda>a. a\<lparr> a_status := ua_status body,
                                  a_reason := (case ua_reason body of
                                                 None \<Rightarrow> a_reason a | Some r \<Rightarrow> Some r) \<rparr>)
                          (appointments s) \<rparr>
             in case find (\<lambda>a. a_id a = appointmentId) (appointments s1) of
                  None \<Rightarrow> (Inl RecordNotFound, s)
                | Some updatedAppointment \<Rightarrow>
                    if ua_status body = CANCELLED then
                      (case find (\<lambda>d. d_id d = a_doctor_id existingAppointment) (doctors s) of
                         None \<Rightarrow> (Inl TypeError, s1)
                       | Some doctor \<Rightarrow>
                          (case d_user_id doctor of
                             None \<Rightarrow> (Inr updatedAppointment, s1)
                           | Some doctor_user_id \<Rightarrow>
                               if doctor_user_id = [] then (Inr updatedAppointment, s1)
                               else
                                 (let s2 = snd (createNotification now
                                             (patient_cancel_notice fmt patient existingAppointment
                                                (ua_reason body) doctor_user_id) s1);
                                      s3 = (if daysDiff (a_appointment_date existingAppointment) now \<le> 1
                                            then createNotifications now
                                                   (map (patient_cancel_alert fmt patient
                                                           existingAppointment doctor)
                                                      (adminUsers s2)) s2
                                            else s2)
                                  in (Inr updatedAppointment, s3))))
                    else (Inr updatedAppointment, s1))))"

section \<open>Doctor-side status change (doctor.service.ts)\<close>

text \<open>\<open>Object.values(AppointmentStatus).includes(status)\<close> followed by the cast
  \<open>status as AppointmentStatus\<close>.\<close>

definition status_of_string :: "string \<Rightarrow> AppointmentStatus option" where
  "status_of_string status =
     (if status = ''PENDING'' then Some PENDING
      else if status = ''SCHEDULED'' then Some SCHEDULED
      else if status = ''COMPLETED'' then Some COMPLETED
      else if status = ''CANCELLED'' then Some CANCELLED
      else None)"

text \<open>The \<open>switch (status)\<close>: emoji, title and message of the notification to the
  patient.\<close>

definition doctor_status_notice ::
  "doctor \<Rightarrow> string \<Rightarrow> string option \<Rightarrow> string \<Rightarrow> notification_data" where
  "doctor_status_notice doctor status reason patient_user_id =
     (let (emoji, title, message) =
        (if status = ''SCHEDULED'' then
           ('':white_check_mark:'', ''Appointment Approved!'',
            ''Good news! Dr. '' @ d_name doctor
              @ '' has approved your appointment. Your appointment is now confirmed.'')
         else if status = ''COMPLETED'' then
           ('':hospital:'', ''Appointment Completed'',
            ''Your appointment with Dr. '' @ d_name doctor
              @ '' has been marked as completed. Thank you for visiting us!'')
         else if status = ''CANCELLED'' then
           ('':x:'', ''Appointment Cancelled'',
            ''Unfortunately, your appointment with Dr. '' @ d_name doctor
              @ '' has been cancelled. ''
              @ reason_text reason ''Please contact us for rescheduling.'')
         else
           ('':clipboard:'', ''Appointment Status Updated'',
            ''Your appointment status was changed to '' @ status @ ''.''))
      in \<lparr> nd_userId = patient_user_id, nd_title = emoji @ '' '' @ title,
           nd_message = message, nd_link = Some ''/appointments'' \<rparr>)"

definition doctor_cancel_alert ::
  "(int \<Rightarrow> string) \<Rightarrow> doctor \<Rightarrow> patient \<Rightarrow> appointment \<Rightarrow> string option \<Rightarrow> user
     \<Rightarrow> notification_data" where
  "doctor_cancel_alert fmt doctor patient appointmentDetails reason admin =
     \<lparr> nd_userId = u_id admin,
       nd_title = '':rotating_light: Doctor Cancelled Appointment'',
       nd_message = ''Dr. '' @ d_name doctor @ '' cancelled appointment with ''
         @ pt_first_name patient @ '' '' @ pt_last_name patient @ '' on ''
         @ fmt (a_appointment_date appointmentDetails) @ '' at '' @ a_time appointmentDetails
         @ ''. '' @ reason_text reason ''No reason provided.'',
       nd_link = Some ''/admin/appointments'' \<rparr>"

definition appointment_reminder ::
  "(int \<Rightarrow> string) \<Rightarrow> doctor \<Rightarrow> appointment \<Rightarrow> string \<Rightarrow> notification_data" where
  "appointment_reminder fmt doctor appointmentDetails patient_user_id =
     \<lparr> nd_userId = patient_user_id,
       nd_title = '':alarm_clock: Appointment Reminder'',
       nd_message = ''Don't forget! You have an appointment with Dr. '' @ d_name doctor
         @ '' on '' @ fmt (a_appointment_date appointmentDetails) @ '' at ''
         @ a_time appointmentDetails @ ''.'',
       nd_link = Some ''/appointments'' \<rparr>"

definition updateDoctorAppointmentStatus ::
  "int \<Rightarrow> (int \<Rightarrow> string) \<Rightarrow> string \<Rightarrow> int \<Rightarrow> string \<Rightarrow> string option \<Rightarrow> state
     \<Rightarrow> appointment outcome" where
  "updateDoctorAppointmentStatus now fmt userId appointmentId status reason s =
     (case status_of_string status of
        None \<Rightarrow> (Inl (Error ''Invalid status value''), s)
      | Some new_status \<Rightarrow>
     (case find (\<lambda>d. d_user_id d = Some userId) (doctors s) of
        None \<Rightarrow> (Inl (Error ''Doctor not found''), s)
      | Some doctor \<Rightarrow>
     (case find (\<lambda>a. a_id a = appointmentId \<and> a_doctor_id a = d_id doctor) (appointments s) of
        None \<Rightarrow> (Inl (Error ''Appointment not found''), s)
      | Some appointment \<Rightarrow>
         (let s1 = s\<lparr> appointments :=
                     update_where (\<lambda>a. a_id a = appointmentId)
                       (\<lambda>a. a\<lparr> a_status := new_status,
                               a_reason := (case reason of
                                              None \<Rightarrow> a_reason a | Some r \<Rightarrow> Some r) \<rparr>)
                       (appointments s) \<rparr>
          in case find (\<lambda>a. a_id a = appointmentId) (appointments s1) of
               None \<Rightarrow> (Inl RecordNotFound, s)
             | Some updated \<Rightarrow>
            (case find (\<lambda>p. pt_id p = a_patient_id updated) (patients s1) of
               None \<Rightarrow> (Inr updated, s1)
             | Some patient \<Rightarrow>
            (case pt_user_id patient of
               None \<Rightarrow> (Inr updated, s1)
             | Some patient_user_id \<Rightarrow>
                 if patient_user_id = [] then (Inr updated, s1)
                 else
                   (let s2 =
                      (if status = ''CANCELLED'' then
                         (case find (\<lambda>a. a_id a = appointmentId) (appointments s1) of
                            None \<Rightarrow> s1
                          | Some appointmentDetails \<Rightarrow>
                              if daysDiff (a_appointment_date appointmentDetails) now \<le> 2
                              then createNotifications now
                                     (map (doctor_cancel_alert fmt doctor patient
                                             appointmentDetails reason) (adminUsers s1)) s1
                              else s1)
                       else s1);
                        s3 = snd (createNotification now
                               (doctor_status_notice doctor status reason patient_user_id) s2);
                        s4 =
                      (if status = ''SCHEDULED'' then
                         (case find (\<lambda>a. a_id a = appointmentId) (appointments s3) of
                            None \<Rightarrow> s3
                          | Some appointmentDetails \<Rightarrow>
                              snd (createNotification now
                                     (appointment_reminder fmt doctor appointmentDetails
                                        patient_user_id) s3))
                       else s3)
                    in (Inr updated, s4))))))))"

section \<open>Billing (doctor.service.ts)\<close>

record AddBillInput =
  ab_service_id :: int
  ab_quantity :: int
  ab_service_date :: int

record EditBillInput =
  eb_service_id :: "int option"
  eb_quantity :: "int option"
  eb_service_date :: "int option"

record EditFinalBillInput =
  ef_discount :: "number option"
  ef_bill_date :: "int option"

record GenerateFinalBillInput =
  gf_discount :: number
  gf_bill_date :: int

record PaymentSummary =
  ps_total :: number
  ps_discountAmount :: number
  ps_payable :: number

record FinalBill =
  fb_payment :: payment
  fb_bills :: "patientBills list"
  fb_payable :: number
  fb_discountAmount :: number

text \<open>The relation \<open>bills\<close> of a payment (\<open>include: { bills: true }\<close>) and the
  \<open>reduce\<close> over it.\<close>

definition bills_of :: "state \<Rightarrow> int \<Rightarrow> patientBills list" where
  "bills_of s paymentId = filter (\<lambda>b. b_bill_id b = paymentId) (bills s)"

definition bills_total :: "patientBills list \<Rightarrow> number" where
  "bills_total bs = foldl (\<lambda>sum bill. js_add sum (b_total_cost bill)) (Finite 0) bs"

definition recalculatePaymentSummary :: "int \<Rightarrow> state \<Rightarrow> PaymentSummary option \<times> state" where
  "recalculatePaymentSummary paymentId s =
     (case find (\<lambda>p. p_id p = paymentId) (payments s) of
        None \<Rightarrow> (None, s)
      | Some payment \<Rightarrow>
          (let total = bills_total (bills_of s paymentId);
               discountAmount =
                 js_div (js_mul total (if js_truthy (p_discount payment)
                                       then p_discount payment else Finite 0))
                   (Finite 100);
               payable = js_sub total discountAmount
           in (Some \<lparr> ps_total = total, ps_discountAmount = discountAmount,
                       ps_payable = payable \<rparr>,
               s\<lparr> payments := update_where (\<lambda>p. p_id p = paymentId)
                                 (\<lambda>p. p\<lparr> p_total_amount := total \<rparr>) (payments s) \<rparr>)))"


definition addBillToAppointment :: "int \<Rightarrow> int \<Rightarrow> AddBillInput \<Rightarrow> state \<Rightarrow> patientBills outcome" where
  "addBillToAppointment now appointmentId input s =
     (case find (\<lambda>a. a_id a = appointmentId) (appointments s) of
        None \<Rightarrow> (Inl (Error ''Appointment not found''), s)
      | Some billAppointment \<Rightarrow>
         (let s1 =
            (case find (\<lambda>p. p_appointment_id p = appointmentId) (payments s) of
               Some payment \<Rightarrow> s
             | None \<Rightarrow>
                 s\<lparr> payments := payments s @
                      [\<lparr> p_id = payment_seq s, p_appointment_id = appointmentId,
                         p_patient_id = a_patient_id billAppointment, p_bill_date = now,
                         p_payment_date = now, p_discount = Finite 0, p_total_amount = Finite 0,
                         p_amount_paid = Finite 0, p_payment_method = ''CASH'', p_status = ''UNPAID'',
                         p_finalized = False \<rparr>],
                    payment_seq := payment_seq s + 1 \<rparr>)
          in case find (\<lambda>p. p_appointment_id p = appointmentId) (payments s1) of
               None \<Rightarrow> (Inl (Error ''Payment not found''), s1)
             | Some payment \<Rightarrow>
            (case find (\<lambda>sv. s_id sv = ab_service_id input) (service_catalog s1) of
               None \<Rightarrow> (Inl (Error ''Service not found''), s1)
             | Some service \<Rightarrow>
                (let total_cost = js_mul (s_price service) (number_of_int (ab_quantity input));
                     bill = \<lparr> b_id = bill_seq s1, b_bill_id = p_id payment,
                              b_service_id = ab_service_id input,
                              b_service_date = ab_service_date input,
                              b_quantity = ab_quantity input, b_unit_cost = s_price service,
                              b_total_cost = total_cost \<rparr>;
                     s2 = s1\<lparr> bills := bills s1 @ [bill], bill_seq := bill_seq s1 + 1 \<rparr>;
                     s3 = snd (recalculatePaymentSummary (p_id payment) s2);
                     s4 = (case find (\<lambda>p. pt_id p = a_patient_id billAppointment) (patients s3) of
                             None \<Rightarrow> s3
                           | Some patient \<Rightarrow>
                              (case pt_user_id patient of
                                 None \<Rightarrow> s3
                               | Some patient_user_id \<Rightarrow>
                                   if patient_user_id = [] then s3
                                   else snd (createNotification now
                                          \<lparr> nd_userId = patient_user_id,
                                            nd_title = ''New Bill Generated'',
                                            nd_message =
                                              ''A new bill has been generated for your appointment.'',
                                            nd_link = Some ''/appointments'' \<rparr> s3)))
                 in (Inr bill, s4)))))"

definition deleteBillFromAppointment :: "int \<Rightarrow> int \<Rightarrow> state \<Rightarrow> bool outcome" where
  "deleteBillFromAppointment appointmentId billId s =
     (case find (\<lambda>p. p_appointment_id p = appointmentId) (payments s) of
        None \<Rightarrow> (Inl (Error ''Payment not found''), s)
      | Some payment \<Rightarrow>
         (case find (\<lambda>b. b_id b = billId) (bills s) of
            None \<Rightarrow> (Inl RecordNotFound, s)
          | Some bill \<Rightarrow>
             (let s1 = s\<lparr> bills := delete_where (\<lambda>b. b_id b = billId) (bills s) \<rparr>;
                  s2 = snd (recalculatePaymentSummary (p_id payment) s1)
              in (Inr True, s2))))"

text \<open>The object \<open>updateData\<close> built by \<open>editBillInAppointment\<close>: a field that is not
  assigned is \<open>None\<close> and leaves the column as it is.\<close>

record BillUpdate =
  bu_service_id :: "int option"
  bu_unit_cost :: "number option"
  bu_total_cost :: "number option"
  bu_quantity :: "int option"
  bu_service_date :: "int option"

definition apply_bill_update :: "BillUpdate \<Rightarrow> patientBills \<Rightarrow> patientBills" where
  "apply_bill_update u b =
     b\<lparr> b_service_id := (case bu_service_id u of None \<Rightarrow> b_service_id b | Some v \<Rightarrow> v),
        b_unit_cost := (case bu_unit_cost u of None \<Rightarrow> b_unit_cost b | Some v \<Rightarrow> v),
        b_total_cost := (case bu_total_cost u of None \<Rightarrow> b_total_cost b | Some v \<Rightarrow> v),
        b_quantity := (case bu_quantity u of None \<Rightarrow> b_quantity b | Some v \<Rightarrow> v),
        b_service_date := (case bu_service_date u of None \<Rightarrow> b_service_date b | Some v \<Rightarrow> v) \<rparr>"

text \<open>The three \<open>if\<close> blocks that fill \<open>updateData\<close>. \<open>if (data.service_id)\<close> and
  \<open>if (data.quantity)\<close> are false on 0 as on an absent value, \<open>if (updateData.unit_cost)\<close>
  is false on an absent value and on a price that is zero or \<open>NaN\<close>;
  \<open>data.quantity ?? bill.quantity\<close> replaces only an absent value.\<close>

definition edit_service_step ::
  "state \<Rightarrow> patientBills \<Rightarrow> EditBillInput \<Rightarrow> BillUpdate \<Rightarrow> error + BillUpdate" where
  "edit_service_step s bill data u =
     (case eb_service_id data of
        None \<Rightarrow> Inr u
      | Some service_id \<Rightarrow>
          if service_id = 0 then Inr u
          else
            (case find (\<lambda>sv. s_id sv = service_id) (service_catalog s) of
               None \<Rightarrow> Inl (Error ''Service not found'')
             | Some service \<Rightarrow>
                 Inr (u\<lparr> bu_service_id := Some service_id,
                         bu_unit_cost := Some (s_price service),
                         bu_total_cost := Some (js_mul (s_price service)
                           (number_of_int (case eb_quantity data of
                                             None \<Rightarrow> b_quantity bill | Some q \<Rightarrow> q))) \<rparr>)))"

definition edit_quantity_step :: "patientBills \<Rightarrow> EditBillInput \<Rightarrow> BillUpdate \<Rightarrow> BillUpdate" where
  "edit_quantity_step bill data u =
     (case eb_quantity data of
        None \<Rightarrow> u
      | Some quantity \<Rightarrow>
          if quantity = 0 then u
          else u\<lparr> bu_quantity := Some quantity,
                  bu_total_cost := Some
                    (case bu_unit_cost u of
                       None \<Rightarrow> js_mul (b_unit_cost bill) (number_of_int quantity)
                     | Some unit_cost \<Rightarrow>
                         if js_truthy unit_cost
                         then js_mul unit_cost (number_of_int quantity)
                         else js_mul (b_unit_cost bill) (number_of_int quantity)) \<rparr>)"

definition edit_date_step :: "EditBillInput \<Rightarrow> BillUpdate \<Rightarrow> BillUpdate" where
  "edit_date_step data u =
     (case eb_service_date data of
        None \<Rightarrow> u
      | Some service_date \<Rightarrow> u\<lparr> bu_service_date := Some service_date \<rparr>)"

definition editBillInAppointment ::
  "int \<Rightarrow> int \<Rightarrow> EditBillInput \<Rightarrow> state \<Rightarrow> patientBills outcome" where
  "editBillInAppointment appointmentId billId data s =
     (case find (\<lambda>p. p_appointment_id p = appointmentId) (payments s) of
        None \<Rightarrow> (Inl (Error ''Payment not found''), s)
      | Some payment \<Rightarrow>
     (case find (\<lambda>b. b_id b = billId) (bills s) of
        None \<Rightarrow> (Inl (Error ''Bill not found''), s)
      | Some bill \<Rightarrow>
     (case edit_service_step s bill data
             \<lparr> bu_service_id = None, bu_unit_cost = None, bu_total_cost = None,
               bu_quantity = None, bu_service_date = None \<rparr> of
        Inl e \<Rightarrow> (Inl e, s)
      | Inr u1 \<Rightarrow>
         (let updateData = edit_date_step data (edit_quantity_step bill data u1);
              s1 = s\<lparr> bills := update_where (\<lambda>b. b_id b = billId)
                                 (apply_bill_update updateData) (bills s) \<rparr>
          in case find (\<lambda>b. b_id b = billId) (bills s1) of
               None \<Rightarrow> (Inl RecordNotFound, s)
             | Some updatedBill \<Rightarrow>
                 (Inr updatedBill, snd (recalculatePaymentSummary (p_id payment) s1))))))"

definition editFinalBillSummary ::
  "int \<Rightarrow> EditFinalBillInput \<Rightarrow> state \<Rightarrow> (payment \<times> patientBills list) option outcome" where
  "editFinalBillSummary appointmentId data s =
     (case find (\<lambda>p. p_appointment_id p = appointmentId) (payments s) of
        None \<Rightarrow> (Inl (Error ''Payment not found''), s)
      | Some payment \<Rightarrow>
         (let s1 = s\<lparr> payments := update_where (\<lambda>p. p_id p = p_id payment)
                       (\<lambda>p. p\<lparr> p_discount := (case ef_discount data of
                                                  None \<Rightarrow> p_discount p | Some d \<Rightarrow> d),
                               p_bill_date := (case ef_bill_date data of
                                                 None \<Rightarrow> p_bill_date p | Some d \<Rightarrow> d) \<rparr>)
                       (payments s) \<rparr>;
              s2 = snd (recalculatePaymentSummary (p_id payment) s1)
          in (Inr (map_option (\<lambda>p. (p, bills_of s2 (p_id p)))
                     (find (\<lambda>p. p_id p = p_id payment) (payments s2))), s2)))"

definition generateFinalBillForAppointment ::
  "int \<Rightarrow> GenerateFinalBillInput \<Rightarrow> state \<Rightarrow> FinalBill outcome" where
  "generateFinalBillForAppointment appointmentId input s =
     (case find (\<lambda>p. p_appointment_id p = appointmentId) (payments s) of
        None \<Rightarrow> (Inl (Error ''No bills to generate final bill''), s)
      | Some payment \<Rightarrow>
         (let total = bills_total (bills_of s (p_id payment));
              discountAmount = js_div (js_mul total (gf_discount input)) (Finite 100);
              payable = js_sub total discountAmount;
              s1 = s\<lparr> payments := update_where (\<lambda>p. p_id p = p_id payment)
                       (\<lambda>p. p\<lparr> p_discount := gf_discount input, p_total_amount := total,
                               p_bill_date := gf_bill_date input, p_finalized := True \<rparr>)
                       (payments s) \<rparr>
          in case find (\<lambda>p. p_id p = p_id payment) (payments s1) of
               None \<Rightarrow> (Inl RecordNotFound, s)
             | Some updated \<Rightarrow>
                 (Inr \<lparr> fb_payment = updated, fb_bills = bills_of s1 (p_id updated),
                        fb_payable = payable, fb_discountAmount = discountAmount \<rparr>, s1)))"


section \<open>Observations used in the statements\<close>

text \<open>The data a stored notification was created from, and the notifications created
  between two states, oldest first.\<close>

definition notification_data_of :: "notification \<Rightarrow> notification_data" where
  "notification_data_of n =
     \<lparr> nd_userId = n_userId n, nd_title = n_title n, nd_message = n_message n,
       nd_link = n_link n \<rparr>"

definition new_notifications :: "state \<Rightarrow> state \<Rightarrow> notification_data list" where
  "new_notifications s s' =
     map notification_data_of (drop (length (notifications s)) (notifications s'))"

text \<open>The rows that a run of \<open>createNotification\<close> calls appends, from the first key
  on.\<close>

fun notification_rows :: "int \<Rightarrow> nat \<Rightarrow> notification_data list \<Rightarrow> notification list" where
  "notification_rows now k [] = []"
| "notification_rows now k (d # ds) =
     \<lparr> n_id = k, n_userId = nd_userId d, n_title = nd_title d, n_message = nd_message d,
       n_link = nd_link d, n_isRead = False, n_createdAt = now \<rparr>
     # notification_rows now (Suc k) ds"

text \<open>An invoice is consistent when its cached total is the sum over its lines.\<close>

definition invoice_consistent :: "state \<Rightarrow> payment \<Rightarrow> bool" where
  "invoice_consistent s p = (p_total_amount p = bills_total (bills_of s (p_id p)))"

text \<open>The same state with the finalized flag of every payment reassigned.\<close>

definition refinalize :: "(payment \<Rightarrow> bool) \<Rightarrow> state \<Rightarrow> state" where
  "refinalize g s = s\<lparr> payments := map (\<lambda>p. p\<lparr> p_finalized := g p \<rparr>) (payments s) \<rparr>"

section \<open>Example states\<close>

definition empty_state :: state where
  "empty_state =
     \<lparr> users = [], patients = [], doctors = [], appointments = [], payments = [], bills = [],
       service_catalog = [], notifications = [], appointment_seq = 1, payment_seq = 1,
       bill_seq = 1, notification_seq = 0, webSocketService = None, effects = [] \<rparr>"

text \<open>A clinic with one admin, one doctor and one patient, and an appointment of the
  patient with the doctor, dated at millisecond \<open>90 000 000\<close> (a little more than one day
  after the epoch).\<close>

definition clinic :: "AppointmentStatus \<Rightarrow> state" where
  "clinic st =
     empty_state
       \<lparr> users := [\<lparr> u_id = ''u-admin'', u_role = ''ADMIN'' \<rparr>,
                   \<lparr> u_id = ''u-doc'', u_role = ''DOCTOR'' \<rparr>,
                   \<lparr> u_id = ''u-pat'', u_role = ''PATIENT'' \<rparr>],
         patients := [\<lparr> pt_id = ''p1'', pt_user_id = Some ''u-pat'', pt_first_name = ''Ann'',
                        pt_last_name = ''Lee'' \<rparr>],
         doctors := [\<lparr> d_id = ''d1'', d_user_id = Some ''u-doc'', d_name = ''Roe'',
                       d_specialization = ''ENT'' \<rparr>],
         appointments := [\<lparr> a_id = 42, a_patient_id = ''p1'', a_doctor_id = ''d1'',
                            a_appointment_date = 90000000, a_time = ''10:00'',
                            a_type = ''checkup'', a_note = None, a_status = st,
                            a_reason = None \<rparr>],
         appointment_seq := 43 \<rparr>"

text \<open>Two appointments with one invoice each; line 7 belongs to the invoice of
  appointment 2. Both invoices are consistent.\<close>

definition two_invoices :: state where
  "two_invoices =
     empty_state
       \<lparr> appointments :=
           [\<lparr> a_id = 1, a_patient_id = ''p1'', a_doctor_id = ''d1'', a_appointment_date = 0,
              a_time = ''09:00'', a_type = ''checkup'', a_note = None, a_status = COMPLETED,
              a_reason = None \<rparr>,
            \<lparr> a_id = 2, a_patient_id = ''p1'', a_doctor_id = ''d1'', a_appointment_date = 0,
              a_time = ''10:00'', a_type = ''checkup'', a_note = None, a_status = COMPLETED,
              a_reason = None \<rparr>],
         payments :=
           [\<lparr> p_id = 1, p_appointment_id = 1, p_patient_id = ''p1'', p_bill_date = 0,
              p_payment_date = 0, p_discount = Finite 0, p_total_amount = Finite 0, p_amount_paid = Finite 0,
              p_payment_method = ''CASH'', p_status = ''UNPAID'', p_finalized = False \<rparr>,
            \<lparr> p_id = 2, p_appointment_id = 2, p_patient_id = ''p1'', p_bill_date = 0,
              p_payment_date = 0, p_discount = Finite 0, p_total_amount = Finite 100, p_amount_paid = Finite 0,
              p_payment_method = ''CASH'', p_status = ''UNPAID'', p_finalized = False \<rparr>],
         bills :=
           [\<lparr> b_id = 7, b_bill_id = 2, b_service_id = 5, b_service_date = 0, b_quantity = 1,
              b_unit_cost = Finite 100, b_total_cost = Finite 100 \<rparr>],
         service_catalog := [\<lparr> s_id = 5, s_service_name = ''X-ray'', s_price = Finite 100 \<rparr>],
         appointment_seq := 3, payment_seq := 3, bill_seq := 8 \<rparr>"

text \<open>One invoice with two lines, of 100 and of 200, and the total 300.\<close>

definition invoice_300 :: state where
  "invoice_300 =
     empty_state
       \<lparr> appointments :=
           [\<lparr> a_id = 1, a_patient_id = ''p1'', a_doctor_id = ''d1'', a_appointment_date = 0,
              a_time = ''09:00'', a_type = ''checkup'', a_note = None, a_status = COMPLETED,
              a_reason = None \<rparr>],
         payments :=
           [\<lparr> p_id = 1, p_appointment_id = 1, p_patient_id = ''p1'', p_bill_date = 0,
              p_payment_date = 0, p_discount = Finite 0, p_total_amount = Finite 300, p_amount_paid = Finite 0,
              p_payment_method = ''CASH'', p_status = ''UNPAID'', p_finalized = False \<rparr>],
         bills :=
           [\<lparr> b_id = 1, b_bill_id = 1, b_service_id = 5, b_service_date = 0, b_quantity = 1,
              b_unit_cost = Finite 100, b_total_cost = Finite 100 \<rparr>,
            \<lparr> b_id = 2, b_bill_id = 1, b_service_id = 5, b_service_date = 0, b_quantity = 2,
              b_unit_cost = Finite 100, b_total_cost = Finite 200 \<rparr>],
         service_catalog := [\<lparr> s_id = 5, s_service_name = ''X-ray'', s_price = Finite 100 \<rparr>],
         appointment_seq := 2, payment_seq := 2, bill_seq := 3 \<rparr>"


text \<open>One invoice with a single line of 5.\<close>

definition invoice_5 :: state where
  "invoice_5 =
     empty_state
       \<lparr> appointments :=
           [\<lparr> a_id = 1, a_patient_id = ''p1'', a_doctor_id = ''d1'', a_appointment_date = 0,
              a_time = ''09:00'', a_type = ''checkup'', a_note = None, a_status = COMPLETED,
              a_reason = None \<rparr>],
         payments :=
           [\<lparr> p_id = 1, p_appointment_id = 1, p_patient_id = ''p1'', p_bill_date = 0,
              p_payment_date = 0, p_discount = Finite 0, p_total_amount = Finite 5,
              p_amount_paid = Finite 0, p_payment_method = ''CASH'', p_status = ''UNPAID'',
              p_finalized = False \<rparr>],
         bills :=
           [\<lparr> b_id = 1, b_bill_id = 1, b_service_id = 5, b_service_date = 0, b_quantity = 1,
              b_unit_cost = Finite 5, b_total_cost = Finite 5 \<rparr>],
         service_catalog := [\<lparr> s_id = 5, s_service_name = ''Dressing'', s_price = Finite 5 \<rparr>],
         appointment_seq := 2, payment_seq := 2, bill_seq := 3 \<rparr>"

text \<open>A store holding one unread notification.\<close>

definition inbox_note :: notification where
  "inbox_note =
     \<lparr> n_id = 0, n_userId = ''u-pat'', n_title = ''New Bill Generated'',
       n_message = ''A new bill has been generated for your appointment.'',
       n_link = Some ''/appointments'', n_isRead = False, n_createdAt = 0 \<rparr>"

definition inbox :: state where
  "inbox = empty_state\<lparr> notifications := [inbox_note], notification_seq := 1 \<rparr>"

section \<open>Auxiliary lemmas\<close>

lemma find_map_key:
  assumes "\<And>x. P (f x) = P x"
  shows "find P (map f xs) = map_option f (find P xs)"
  by (induction xs) (simp_all add: assms)

lemma find_update_where_key:
  assumes "\<And>x. Q (f x) = Q x"
  shows "find Q (update_where P f xs) = map_option (\<lambda>x. if P x then f x else x) (find Q xs)"
  unfolding update_where_def by (rule find_map_key) (simp add: assms)

lemma find_Some_holds: "find P xs = Some x \<Longrightarrow> P x \<and> x \<in> set xs"
  by (induction xs) (auto split: if_splits)

lemma update_where_idem:
  assumes "\<And>x. P (f x) = P x" and "\<And>x. f (f x) = f x"
  shows "update_where P f (update_where P f xs) = update_where P f xs"
  unfolding update_where_def by (induction xs) (simp_all add: assms)

text \<open>\<open>createNotification\<close> appends one row and leaves every other table alone.\<close>

lemma createNotification_frame [simp]:
  "users (snd (createNotification now d s)) = users s"
  "patients (snd (createNotification now d s)) = patients s"
  "doctors (snd (createNotification now d s)) = doctors s"
  "appointments (snd (createNotification now d s)) = appointments s"
  "payments (snd (createNotification now d s)) = payments s"
  "bills (snd (createNotification now d s)) = bills s"
  "service_catalog (snd (createNotification now d s)) = service_catalog s"
  "appointment_seq (snd (createNotification now d s)) = appointment_seq s"
  "payment_seq (snd (createNotification now d s)) = payment_seq s"
  "bill_seq (snd (createNotification now d s)) = bill_seq s"
  "notification_seq (snd (createNotification now d s)) = Suc (notification_seq s)"
  "notifications (snd (createNotification now d s))
     = notifications s @ notification_rows now (notification_seq s) [d]"
  by (simp_all add: createNotification_def Let_def split: option.split)

lemma createNotifications_frame [simp]:
  "users (createNotifications now ds s) = users s"
  "patients (createNotifications now ds s) = patients s"
  "doctors (createNotifications now ds s) = doctors s"
  "appointments (createNotifications now ds s) = appointments s"
  "payments (createNotifications now ds s) = payments s"
  "bills (createNotifications now ds s) = bills s"
  "service_catalog (createNotifications now ds s) = service_catalog s"
  "appointment_seq (createNotifications now ds s) = appointment_seq s"
  "payment_seq (createNotifications now ds s) = payment_seq s"
  "bill_seq (createNotifications now ds s) = bill_seq s"
  by (induction ds arbitrary: s; simp)+

lemma createNotifications_rows:
  "notifications (createNotifications now ds s)
     = notifications s @ notification_rows now (notification_seq s) ds
   \<and> notification_seq (createNotifications now ds s) = notification_seq s + length ds"
  by (induction ds arbitrary: s) simp_all

lemma notification_rows_data [simp]:
  "map notification_data_of (notification_rows now k ds) = ds"
  by (induction ds arbitrary: k) (simp_all add: notification_data_of_def)

lemma adminUsers_frame [simp]:
  "adminUsers (snd (createNotification now d s)) = adminUsers s"
  "adminUsers (createNotifications now ds s) = adminUsers s"
  by (simp_all add: adminUsers_def)

section \<open>Notification store\<close>

text \<open>
  Claim C9. \<open>markNotificationRead\<close> is idempotent: on a notification that exists it
  returns the notification with \<open>isRead = true\<close> and stores it so; a second call on the
  state it leaves returns the same notification without an error and leaves that state
  as it is. The \<open>notification_read\<close> handler of a socket, which performs the same update
  and drops every error, is idempotent as well.
\<close>

theorem markNotificationRead_idempotent:
  assumes "find (\<lambda>n. n_id n = i) (notifications s) = Some n"
  shows "fst (markNotificationRead i s) = Inr (n\<lparr> n_isRead := True \<rparr>)
       \<and> find (\<lambda>n. n_id n = i) (notifications (snd (markNotificationRead i s)))
           = Some (n\<lparr> n_isRead := True \<rparr>)
       \<and> markNotificationRead i (snd (markNotificationRead i s))
           = (Inr (n\<lparr> n_isRead := True \<rparr>), snd (markNotificationRead i s))
       \<and> on_notification_read i (on_notification_read i s) = on_notification_read i s"
proof -
  let ?f = "\<lambda>n. n\<lparr> n_isRead := True \<rparr>"
  let ?P = "\<lambda>n. n_id n = i"
  let ?s1 = "s\<lparr> notifications := update_where ?P ?f (notifications s) \<rparr>"
  have first: "markNotificationRead i s = (Inr (?f n), ?s1)"
    using assms by (simp add: markNotificationRead_def)
  have found: "find ?P (notifications ?s1) = Some (?f n)"
    using assms find_Some_holds [OF assms] by (simp add: find_update_where_key)
  have idem: "update_where ?P ?f (notifications ?s1) = notifications ?s1"
    by (simp add: update_where_idem)
  have second: "markNotificationRead i ?s1 = (Inr (?f n), ?s1)"
    using found idem by (simp add: markNotificationRead_def)
  show ?thesis
    using first found second by (simp add: on_notification_read_def)
qed

theorem markNotificationRead_idempotent_witness:
  "find (\<lambda>n. n_id n = 0) (notifications inbox) = Some inbox_note
   \<and> fst (markNotificationRead 0 inbox) = Inr (inbox_note\<lparr> n_isRead := True \<rparr>)
   \<and> markNotificationRead 0 (snd (markNotificationRead 0 inbox))
       = (Inr (inbox_note\<lparr> n_isRead := True \<rparr>), snd (markNotificationRead 0 inbox))"
proof -
  have h: "find (\<lambda>n. n_id n = 0) (notifications inbox) = Some inbox_note"
    by (simp add: inbox_def inbox_note_def)
  show ?thesis
    using h markNotificationRead_idempotent [OF h] by simp
qed

text \<open>
  Claim C4. \<open>createNotification\<close> first stores the row, with \<open>isRead = false\<close>, and only
  then hands it to the WebSocket service: the log of effects grows by the store write
  followed, when a WebSocket service is set, by the emit to the recipient. The row is the
  last of the table and is returned by \<open>getNotifications\<close> for its user, with and without
  the unread filter. The call always returns the notification; the notification and the
  table it leaves are the same whatever the WebSocket service and its registry are, also
  when there is none.
\<close>

theorem createNotification_persists_then_delivers:
  "notifications (snd (createNotification now d s))
     = notifications s @ [fst (createNotification now d s)]
   \<and> notification_data_of (fst (createNotification now d s)) = d
   \<and> n_isRead (fst (createNotification now d s)) = False
   \<and> fst (createNotification now d s)
       \<in> set (getNotifications (snd (createNotification now d s)) (nd_userId d) unread)
   \<and> effects (snd (createNotification now d s))
       = effects s @ Persisted (n_id (fst (createNotification now d s)))
           # (case webSocketService s of
                None \<Rightarrow> []
              | Some ws \<Rightarrow> [Emitted (nd_userId d) (n_id (fst (createNotification now d s)))])
   \<and> fst (createNotification now d (s\<lparr> webSocketService := w \<rparr>)) = fst (createNotification now d s)
   \<and> notifications (snd (createNotification now d (s\<lparr> webSocketService := w \<rparr>)))
       = notifications (snd (createNotification now d s))"
  by (simp add: createNotification_def Let_def getNotifications_def notification_data_of_def
      split: option.split)

section \<open>Connection registry\<close>

text \<open>
  Claim C10. The disconnect handler deletes the registry entry of the user of the socket,
  whatever socket the entry names. After a user connects with socket \<open>s1\<close> and then with
  socket \<open>s2\<close>, the entry names \<open>s2\<close>; when \<open>s1\<close> then disconnects, the entry is gone and
  \<open>isUserConnected\<close> is false, although \<open>s2\<close> is still in the room of the user.
\<close>

theorem stale_disconnect_removes_live_user:
  assumes "u \<noteq> []" and "s1 \<noteq> s2"
  shows "connectedUsers
           (on_connection \<lparr> sock_id = s2, sock_userId = Some u \<rparr>
             (on_connection \<lparr> sock_id = s1, sock_userId = Some u \<rparr> ws)) u = Some s2
       \<and> isUserConnected
           (on_disconnect \<lparr> sock_id = s1, sock_userId = Some u \<rparr>
             (on_connection \<lparr> sock_id = s2, sock_userId = Some u \<rparr>
               (on_connection \<lparr> sock_id = s1, sock_userId = Some u \<rparr> ws))) u = False
       \<and> (''user_'' @ u, s2) \<in> set (io_rooms
           (on_disconnect \<lparr> sock_id = s1, sock_userId = Some u \<rparr>
             (on_connection \<lparr> sock_id = s2, sock_userId = Some u \<rparr>
               (on_connection \<lparr> sock_id = s1, sock_userId = Some u \<rparr> ws))))"
  using assms by (simp add: on_connection_def on_disconnect_def isUserConnected_def)

theorem stale_disconnect_removes_live_user_witness:
  "''u-pat'' \<noteq> [] \<and> ''sock-1'' \<noteq> ''sock-2''
   \<and> isUserConnected
       (on_disconnect \<lparr> sock_id = ''sock-1'', sock_userId = Some ''u-pat'' \<rparr>
         (on_connection \<lparr> sock_id = ''sock-2'', sock_userId = Some ''u-pat'' \<rparr>
           (on_connection \<lparr> sock_id = ''sock-1'', sock_userId = Some ''u-pat'' \<rparr>
              \<lparr> connectedUsers = Map.empty, io_emitted = [], io_rooms = [] \<rparr>))) ''u-pat'' = False"
  using stale_disconnect_removes_live_user [of "''u-pat''" "''sock-1''" "''sock-2''"
      "\<lparr> connectedUsers = Map.empty, io_emitted = [], io_rooms = [] \<rparr>"]
  by simp


lemma find_append_case:
  "find P (xs @ ys) = (case find P xs of None \<Rightarrow> find P ys | Some x \<Rightarrow> Some x)"
  by (induction xs) simp_all

lemma find_by_key_of_distinct:
  assumes "distinct (map k xs)" and "find (\<lambda>x. k x = i \<and> Q x) xs = Some a"
  shows "find (\<lambda>x. k x = i) xs = Some a"
  using assms
proof (induction xs)
  case Nil
  then show ?case by simp
next
  case (Cons x xs)
  show ?case
  proof (cases "k x = i")
    case True
    note kx = this
    show ?thesis
    proof (cases "Q x")
      case True
      with kx Cons.prems show ?thesis by simp
    next
      case False
      with kx Cons.prems have "find (\<lambda>x. k x = i \<and> Q x) xs = Some a" by simp
      then have "a \<in> set xs" and "k a = i" by (auto dest: find_Some_holds)
      with kx Cons.prems(1) have False by (auto simp: image_iff)
      then show ?thesis ..
    qed
  next
    case False
    with Cons show ?thesis by simp
  qed
qed

lemma find_by_key_exists:
  assumes "find (\<lambda>x. k x = i \<and> Q x) xs = Some a"
  shows "\<exists>b. find (\<lambda>x. k x = i) xs = Some b"
proof (cases "find (\<lambda>x. k x = i) xs")
  case None
  with find_Some_holds [OF assms] show ?thesis by (auto simp: find_None_iff)
next
  case (Some b)
  then show ?thesis by simp
qed

lemma new_notifications_append:
  "notifications s' = notifications s @ rows \<Longrightarrow>
   new_notifications s s' = map notification_data_of rows"
  by (simp add: new_notifications_def)

text \<open>Rounding the difference up to whole days and comparing with \<open>k\<close> is comparing the
  difference with \<open>k\<close> days.\<close>

lemma le_div_pos_iff:
  fixes a b x :: int
  assumes "0 < b"
  shows "a \<le> x div b \<longleftrightarrow> a * b \<le> x"
proof
  assume "a \<le> x div b"
  then have "a * b \<le> (x div b) * b" using assms by (simp add: mult_right_mono)
  also have "\<dots> \<le> x"
    using assms by (metis add.commute add_increasing2 div_mult_mod_eq order_refl pos_mod_sign)
  finally show "a * b \<le> x" .
next
  assume "a * b \<le> x"
  then have "(a * b) div b \<le> x div b" using assms by (rule zdiv_mono1)
  then show "a \<le> x div b" using assms by simp
qed

lemma daysDiff_le: "daysDiff d t \<le> k \<longleftrightarrow> d - t \<le> k * day_ms"
proof -
  have pos: "(0::int) < day_ms" by (simp add: day_ms_def)
  have "daysDiff d t \<le> k \<longleftrightarrow> - k \<le> (- (d - t)) div day_ms"
    by (simp add: daysDiff_def) arith
  also have "\<dots> \<longleftrightarrow> (- k) * day_ms \<le> - (d - t)"
    using pos by (rule le_div_pos_iff)
  also have "\<dots> \<longleftrightarrow> d - t \<le> k * day_ms" by auto
  finally show ?thesis .
qed

text \<open>Reassigning the finalized flags changes no table but \<open>payments\<close>, and no key
  in it.\<close>

lemma refinalize_fields [simp]:
  "appointments (refinalize g s) = appointments s"
  "bills (refinalize g s) = bills s"
  "service_catalog (refinalize g s) = service_catalog s"
  "patients (refinalize g s) = patients s"
  "bill_seq (refinalize g s) = bill_seq s"
  "payment_seq (refinalize g s) = payment_seq s"
  by (simp_all add: refinalize_def)

lemma refinalize_find_payment:
  "find (\<lambda>p. p_appointment_id p = a) (payments (refinalize g s))
     = map_option (\<lambda>p. p\<lparr> p_finalized := g p \<rparr>)
         (find (\<lambda>p. p_appointment_id p = a) (payments s))"
  by (simp add: refinalize_def find_map_key)

lemma edit_service_step_refinalize [simp]:
  "edit_service_step (refinalize g s) bill data u = edit_service_step s bill data u"
  by (simp add: edit_service_step_def split: option.split)

text \<open>The outcome of each line mutation, as a function of what it looks up.\<close>

lemma addBill_outcome:
  "fst (addBillToAppointment now a input s) =
     (case find (\<lambda>x. a_id x = a) (appointments s) of
        None \<Rightarrow> Inl (Error ''Appointment not found'')
      | Some billAppointment \<Rightarrow>
         (case find (\<lambda>sv. s_id sv = ab_service_id input) (service_catalog s) of
            None \<Rightarrow> Inl (Error ''Service not found'')
          | Some service \<Rightarrow>
              Inr \<lparr> b_id = bill_seq s,
                    b_bill_id = (case find (\<lambda>p. p_appointment_id p = a) (payments s) of
                                   None \<Rightarrow> payment_seq s | Some p \<Rightarrow> p_id p),
                    b_service_id = ab_service_id input,
                    b_service_date = ab_service_date input,
                    b_quantity = ab_quantity input, b_unit_cost = s_price service,
                    b_total_cost = js_mul (s_price service) (number_of_int (ab_quantity input)) \<rparr>))"
  by (simp add: addBillToAppointment_def Let_def find_append_case split: option.split)

lemma deleteBill_outcome:
  "fst (deleteBillFromAppointment a billId s) =
     (case find (\<lambda>p. p_appointment_id p = a) (payments s) of
        None \<Rightarrow> Inl (Error ''Payment not found'')
      | Some payment \<Rightarrow>
         (case find (\<lambda>b. b_id b = billId) (bills s) of
            None \<Rightarrow> Inl RecordNotFound
          | Some bill \<Rightarrow> Inr True))"
  by (simp add: deleteBillFromAppointment_def Let_def split: option.split)

lemma editBill_outcome:
  "fst (editBillInAppointment a billId data s) =
     (case find (\<lambda>p. p_appointment_id p = a) (payments s) of
        None \<Rightarrow> Inl (Error ''Payment not found'')
      | Some payment \<Rightarrow>
     (case find (\<lambda>b. b_id b = billId) (bills s) of
        None \<Rightarrow> Inl (Error ''Bill not found'')
      | Some bill \<Rightarrow>
     (case edit_service_step s bill data
             \<lparr> bu_service_id = None, bu_unit_cost = None, bu_total_cost = None,
               bu_quantity = None, bu_service_date = None \<rparr> of
        Inl e \<Rightarrow> Inl e
      | Inr u1 \<Rightarrow>
          (case find (\<lambda>b. b_id b = billId)
                  (update_where (\<lambda>b. b_id b = billId)
                     (apply_bill_update (edit_date_step data (edit_quantity_step bill data u1)))
                     (bills s)) of
             None \<Rightarrow> Inl RecordNotFound
           | Some updatedBill \<Rightarrow> Inr updatedBill))))"
  by (simp add: editBillInAppointment_def Let_def split: option.split sum.split)

section \<open>Billing\<close>

text \<open>
  Claim C2, as the code has it. When the appointment has no payment,
  \<open>generateFinalBillForAppointment\<close> fails with the error \<open>No bills to generate final
  bill\<close> and changes nothing. When it has the payment \<open>payment\<close>, whose lines add up to
  \<open>lines_total\<close> (the sum taken line by line in double precision), the call succeeds; it
  returns \<open>discountAmount = (lines_total * discount) / 100\<close> and
  \<open>payable = lines_total - discountAmount\<close>, each operation being the one of JavaScript
  numbers, rounded to the nearest double; the payment it returns and the payment stored
  for the appointment have \<open>finalized = true\<close>, \<open>total_amount = lines_total\<close> and the
  discount given; the lines are left as they are.
\<close>

theorem generateFinalBill_result:
  "(find (\<lambda>p. p_appointment_id p = appointmentId) (payments s) = None \<longrightarrow>
      generateFinalBillForAppointment appointmentId input s
        = (Inl (Error ''No bills to generate final bill''), s))
   \<and> (find (\<lambda>p. p_appointment_id p = appointmentId) (payments s) = Some payment
        \<and> lines_total = bills_total (bills_of s (p_id payment)) \<longrightarrow>
        (\<exists>fb s'. generateFinalBillForAppointment appointmentId input s = (Inr fb, s')
           \<and> fb_discountAmount fb = js_div (js_mul lines_total (gf_discount input)) (Finite 100)
           \<and> fb_payable fb = js_sub lines_total (fb_discountAmount fb)
           \<and> p_finalized (fb_payment fb) = True
           \<and> p_total_amount (fb_payment fb) = lines_total
           \<and> p_discount (fb_payment fb) = gf_discount input
           \<and> find (\<lambda>p. p_appointment_id p = appointmentId) (payments s')
               = Some (payment\<lparr> p_discount := gf_discount input, p_total_amount := lines_total,
                                 p_bill_date := gf_bill_date input, p_finalized := True \<rparr>)
           \<and> bills s' = bills s))"
proof (intro conjI impI)
  assume "find (\<lambda>p. p_appointment_id p = appointmentId) (payments s) = None"
  then show "generateFinalBillForAppointment appointmentId input s
        = (Inl (Error ''No bills to generate final bill''), s)"
    by (simp add: generateFinalBillForAppointment_def)
next
  assume h: "find (\<lambda>p. p_appointment_id p = appointmentId) (payments s) = Some payment
        \<and> lines_total = bills_total (bills_of s (p_id payment))"
  let ?f = "\<lambda>p. p\<lparr> p_discount := gf_discount input, p_total_amount := lines_total,
                     p_bill_date := gf_bill_date input, p_finalized := True \<rparr>"
  let ?s1 = "s\<lparr> payments := update_where (\<lambda>p. p_id p = p_id payment) ?f (payments s) \<rparr>"
  let ?discountAmount = "js_div (js_mul lines_total (gf_discount input)) (Finite 100)"
  from h have mem: "payment \<in> set (payments s)" by (auto dest: find_Some_holds)
  then obtain q where q: "find (\<lambda>p. p_id p = p_id payment) (payments s) = Some q"
    by (cases "find (\<lambda>p. p_id p = p_id payment) (payments s)") (auto simp: find_None_iff)
  have upd: "find (\<lambda>p. p_id p = p_id payment) (payments ?s1) = Some (?f q)"
    using q find_Some_holds [OF q] by (simp add: find_update_where_key)
  have appt: "find (\<lambda>p. p_appointment_id p = appointmentId) (payments ?s1) = Some (?f payment)"
    using h by (simp add: find_update_where_key)
  have run: "generateFinalBillForAppointment appointmentId input s
      = (Inr \<lparr> fb_payment = ?f q, fb_bills = bills_of ?s1 (p_id (?f q)),
               fb_payable = js_sub lines_total ?discountAmount,
               fb_discountAmount = ?discountAmount \<rparr>, ?s1)"
    using h upd by (simp add: generateFinalBillForAppointment_def Let_def)
  show "\<exists>fb s'. generateFinalBillForAppointment appointmentId input s = (Inr fb, s')
           \<and> fb_discountAmount fb = js_div (js_mul lines_total (gf_discount input)) (Finite 100)
           \<and> fb_payable fb = js_sub lines_total (fb_discountAmount fb)
           \<and> p_finalized (fb_payment fb) = True
           \<and> p_total_amount (fb_payment fb) = lines_total
           \<and> p_discount (fb_payment fb) = gf_discount input
           \<and> find (\<lambda>p. p_appointment_id p = appointmentId) (payments s')
               = Some (payment\<lparr> p_discount := gf_discount input, p_total_amount := lines_total,
                                 p_bill_date := gf_bill_date input, p_finalized := True \<rparr>)
           \<and> bills s' = bills s"
    using run appt by simp
qed

text \<open>The scenario of the specification: on a total of 300 a discount of 10 gives the
  discount amount 30 and the payable amount 270, no operation rounding; and an appointment
  without a payment gets the error.\<close>

theorem generateFinalBill_result_witness:
  "generateFinalBillForAppointment 9 \<lparr> gf_discount = Finite 10, gf_bill_date = 5 \<rparr> invoice_300
     = (Inl (Error ''No bills to generate final bill''), invoice_300)
   \<and> (\<exists>fb s'. generateFinalBillForAppointment 1 \<lparr> gf_discount = Finite 10, gf_bill_date = 5 \<rparr>
                  invoice_300 = (Inr fb, s')
         \<and> fb_payable fb = Finite 270 \<and> fb_discountAmount fb = Finite 30
         \<and> p_finalized (fb_payment fb) = True \<and> p_total_amount (fb_payment fb) = Finite 300)"
proof -
  let ?p = "\<lparr> p_id = 1, p_appointment_id = 1, p_patient_id = ''p1'', p_bill_date = 0,
              p_payment_date = 0, p_discount = Finite 0, p_total_amount = Finite 300,
              p_amount_paid = Finite 0, p_payment_method = ''CASH'', p_status = ''UNPAID'',
              p_finalized = False \<rparr>"
  have none: "find (\<lambda>p. p_appointment_id p = 9) (payments invoice_300) = None"
    by (simp add: invoice_300_def empty_state_def)
  have found: "find (\<lambda>p. p_appointment_id p = 1) (payments invoice_300) = Some ?p"
    by (simp add: invoice_300_def empty_state_def)
  have lines: "bills_total (bills_of invoice_300 (p_id ?p)) = Finite 300"
    by code_simp
  have amount: "js_div (js_mul (Finite 300) (Finite 10)) (Finite 100) = Finite 30"
    by code_simp
  have payable: "js_sub (Finite 300) (Finite 30) = Finite 270"
    by code_simp
  have h: "find (\<lambda>p. p_appointment_id p = 1) (payments invoice_300) = Some ?p
      \<and> Finite 300 = bills_total (bills_of invoice_300 (p_id ?p))"
    using found lines by simp
  note absent = generateFinalBill_result [where appointmentId = 9 and s = invoice_300
      and input = "\<lparr> gf_discount = Finite 10, gf_bill_date = 5 \<rparr>",
      THEN conjunct1, THEN mp, OF none]
  note present = generateFinalBill_result [where appointmentId = 1 and s = invoice_300
      and payment = ?p and lines_total = "Finite 300"
      and input = "\<lparr> gf_discount = Finite 10, gf_bill_date = 5 \<rparr>",
      THEN conjunct2, THEN mp, OF h]
  show ?thesis
    using absent present by (auto simp: amount payable)
qed

text \<open>
  The claim as it is written, with the exact quotient and difference, fails: on a total of
  5 a discount of 61 gives the discount amount \<open>3433994715870003 / 2 ^ 50\<close>, the double
  nearest to 3.05, and the payable amount \<open>2195504818343117 / 2 ^ 50\<close>, printed
  \<open>1.9500000000000002\<close>; neither is \<open>5 * 61 / 100\<close> or \<open>5 - 5 * 61 / 100\<close>.
\<close>

theorem generateFinalBill_exact_counterexample:
  "bills_total (bills_of invoice_5 1) = Finite 5
   \<and> map_sum id fb_discountAmount
        (fst (generateFinalBillForAppointment 1 \<lparr> gf_discount = Finite 61, gf_bill_date = 5 \<rparr>
                invoice_5))
       = Inr (Finite (3433994715870003 / 1125899906842624))
   \<and> map_sum id fb_payable
        (fst (generateFinalBillForAppointment 1 \<lparr> gf_discount = Finite 61, gf_bill_date = 5 \<rparr>
                invoice_5))
       = Inr (Finite (2195504818343117 / 1125899906842624))
   \<and> Finite (3433994715870003 / 1125899906842624) \<noteq> Finite (5 * 61 / 100)
   \<and> Finite (2195504818343117 / 1125899906842624) \<noteq> Finite (5 - 5 * 61 / 100)"
  by code_simp

text \<open>
  Claim C8. The outcome of \<open>addBillToAppointment\<close>, \<open>editBillInAppointment\<close> and
  \<open>deleteBillFromAppointment\<close>, that is the error raised or the value returned, is the
  same in a state and in the state obtained from it by setting the finalized flag of
  every payment to any value: no line mutation fails, or succeeds, because an invoice is
  finalized.
\<close>

theorem line_mutations_ignore_finalized:
  "fst (addBillToAppointment now appointmentId input (refinalize g s))
     = fst (addBillToAppointment now appointmentId input s)
   \<and> fst (editBillInAppointment appointmentId billId data (refinalize g s))
     = fst (editBillInAppointment appointmentId billId data s)
   \<and> fst (deleteBillFromAppointment appointmentId billId (refinalize g s))
     = fst (deleteBillFromAppointment appointmentId billId s)"
proof (intro conjI)
  show "fst (addBillToAppointment now appointmentId input (refinalize g s))
     = fst (addBillToAppointment now appointmentId input s)"
    by (simp add: addBill_outcome refinalize_find_payment split: option.split)
  show "fst (editBillInAppointment appointmentId billId data (refinalize g s))
     = fst (editBillInAppointment appointmentId billId data s)"
    by (simp add: editBill_outcome refinalize_find_payment split: option.split sum.split)
  show "fst (deleteBillFromAppointment appointmentId billId (refinalize g s))
     = fst (deleteBillFromAppointment appointmentId billId s)"
    by (simp add: deleteBill_outcome refinalize_find_payment split: option.split)
qed

section \<open>Booking and status changes\<close>

text \<open>
  Claim C3. For a request of a registered patient for an existing doctor: when an
  appointment whose status is not \<open>CANCELLED\<close> holds the same doctor, date and time, the
  request is rejected with the error \<open>This time slot is already booked for the selected
  doctor\<close> and the state is unchanged, so no appointment is created; when there is none,
  the request succeeds, and the appointment returned, with status \<open>PENDING\<close>, is appended
  to the appointments.
\<close>

theorem createAppointment_slot_check:
  assumes patient: "find (\<lambda>p. pt_user_id p = Some userId) (patients s) = Some patient"
      and doctor: "find (\<lambda>d. d_id d = ca_doctor_id body) (doctors s) = Some doctor"
  shows "((\<exists>a \<in> set (appointments s).
             a_doctor_id a = ca_doctor_id body \<and> a_appointment_date a = ca_appointment_date body
             \<and> a_time a = ca_time body \<and> a_status a \<noteq> CANCELLED) \<longrightarrow>
           createAppointmentService now currentHour fmt userId body s
             = (Inl (Error ''This time slot is already booked for the selected doctor''), s))
       \<and> (\<not> (\<exists>a \<in> set (appointments s).
             a_doctor_id a = ca_doctor_id body \<and> a_appointment_date a = ca_appointment_date body
             \<and> a_time a = ca_time body \<and> a_status a \<noteq> CANCELLED) \<longrightarrow>
           fst (createAppointmentService now currentHour fmt userId body s)
             = Inr \<lparr> a_id = appointment_seq s, a_patient_id = pt_id patient,
                     a_doctor_id = ca_doctor_id body,
                     a_appointment_date = ca_appointment_date body, a_time = ca_time body,
                     a_type = ca_type body, a_note = ca_note body, a_status = PENDING,
                     a_reason = None \<rparr>
           \<and> appointments (snd (createAppointmentService now currentHour fmt userId body s))
             = appointments s @
                 [\<lparr> a_id = appointment_seq s, a_patient_id = pt_id patient,
                    a_doctor_id = ca_doctor_id body,
                    a_appointment_date = ca_appointment_date body, a_time = ca_time body,
                    a_type = ca_type body, a_note = ca_note body, a_status = PENDING,
                    a_reason = None \<rparr>])"
proof (intro conjI impI)
  let ?slot = "\<lambda>a. a_doctor_id a = ca_doctor_id body
                     \<and> a_appointment_date a = ca_appointment_date body
                     \<and> a_time a = ca_time body
                     \<and> a_status a \<notin> set [CANCELLED]"
  assume "\<exists>a \<in> set (appointments s).
             a_doctor_id a = ca_doctor_id body \<and> a_appointment_date a = ca_appointment_date body
             \<and> a_time a = ca_time body \<and> a_status a \<noteq> CANCELLED"
  then have "find ?slot (appointments s) \<noteq> None"
    by (auto simp: find_None_iff)
  then obtain e where "find ?slot (appointments s) = Some e" by blast
  with patient doctor
  show "createAppointmentService now currentHour fmt userId body s
             = (Inl (Error ''This time slot is already booked for the selected doctor''), s)"
    by (simp add: createAppointmentService_def)
next
  let ?slot = "\<lambda>a. a_doctor_id a = ca_doctor_id body
                     \<and> a_appointment_date a = ca_appointment_date body
                     \<and> a_time a = ca_time body
                     \<and> a_status a \<notin> set [CANCELLED]"
  assume "\<not> (\<exists>a \<in> set (appointments s).
             a_doctor_id a = ca_doctor_id body \<and> a_appointment_date a = ca_appointment_date body
             \<and> a_time a = ca_time body \<and> a_status a \<noteq> CANCELLED)"
  then have free: "find ?slot (appointments s) = None"
    by (auto simp: find_None_iff)
  from patient doctor free
  show "fst (createAppointmentService now currentHour fmt userId body s)
             = Inr \<lparr> a_id = appointment_seq s, a_patient_id = pt_id patient,
                     a_doctor_id = ca_doctor_id body,
                     a_appointment_date = ca_appointment_date body, a_time = ca_time body,
                     a_type = ca_type body, a_note = ca_note body, a_status = PENDING,
                     a_reason = None \<rparr>"
    by (simp add: createAppointmentService_def Let_def)
  from patient doctor free
  show "appointments (snd (createAppointmentService now currentHour fmt userId body s))
             = appointments s @
                 [\<lparr> a_id = appointment_seq s, a_patient_id = pt_id patient,
                    a_doctor_id = ca_doctor_id body,
                    a_appointment_date = ca_appointment_date body, a_time = ca_time body,
                    a_type = ca_type body, a_note = ca_note body, a_status = PENDING,
                    a_reason = None \<rparr>]"
    by (simp add: createAppointmentService_def Let_def split: option.split)
qed

theorem createAppointment_slot_check_witness:
  "createAppointmentService 0 9 (\<lambda>d. ''Friday, January 2, 1970'') ''u-pat''
       \<lparr> ca_doctor_id = ''d1'', ca_appointment_date = 90000000, ca_time = ''10:00'',
         ca_type = ''checkup'', ca_note = None \<rparr> (clinic SCHEDULED)
     = (Inl (Error ''This time slot is already booked for the selected doctor''), clinic SCHEDULED)
   \<and> fst (createAppointmentService 0 9 (\<lambda>d. ''Friday, January 2, 1970'') ''u-pat''
       \<lparr> ca_doctor_id = ''d1'', ca_appointment_date = 90000000, ca_time = ''10:00'',
         ca_type = ''checkup'', ca_note = None \<rparr> (clinic CANCELLED))
     = Inr \<lparr> a_id = 43, a_patient_id = ''p1'', a_doctor_id = ''d1'',
             a_appointment_date = 90000000, a_time = ''10:00'', a_type = ''checkup'',
             a_note = None, a_status = PENDING, a_reason = None \<rparr>"
proof -
  let ?body = "\<lparr> ca_doctor_id = ''d1'', ca_appointment_date = 90000000, ca_time = ''10:00'',
         ca_type = ''checkup'', ca_note = None \<rparr>"
  let ?patient = "\<lparr> pt_id = ''p1'', pt_user_id = Some ''u-pat'', pt_first_name = ''Ann'',
                        pt_last_name = ''Lee'' \<rparr>"
  let ?doctor = "\<lparr> d_id = ''d1'', d_user_id = Some ''u-doc'', d_name = ''Roe'',
                       d_specialization = ''ENT'' \<rparr>"
  have p: "find (\<lambda>p. pt_user_id p = Some ''u-pat'') (patients (clinic st)) = Some ?patient" for st
    by (simp add: clinic_def empty_state_def)
  have d: "find (\<lambda>d. d_id d = ca_doctor_id ?body) (doctors (clinic st)) = Some ?doctor" for st
    by (simp add: clinic_def empty_state_def)
  show ?thesis
    using createAppointment_slot_check [OF p [of SCHEDULED] d [of SCHEDULED], where now = 0
        and currentHour = 9 and fmt = "\<lambda>d. ''Friday, January 2, 1970''"]
      createAppointment_slot_check [OF p [of CANCELLED] d [of CANCELLED], where now = 0
        and currentHour = 9 and fmt = "\<lambda>d. ''Friday, January 2, 1970''"]
    by (simp add: clinic_def empty_state_def)
qed

text \<open>
  Claim C6. For a status change to \<open>CANCELLED\<close> asked by a patient: if the call succeeds,
  the appointment of the patient was \<open>PENDING\<close>; and when the appointment of the patient
  has any other status, the call fails with the error \<open>Only pending appointments can be
  cancelled\<close> and leaves the state, hence the status of the appointment, unchanged.
\<close>

theorem patient_cancel_only_from_pending:
  assumes "ua_status body = CANCELLED"
  shows "(updateAppointmentStatusService now fmt userId appointmentId body s = (Inr r, s') \<longrightarrow>
            (\<exists>patient existing.
               find (\<lambda>p. pt_user_id p = Some userId) (patients s) = Some patient
               \<and> find (\<lambda>a. a_id a = appointmentId \<and> a_patient_id a = pt_id patient) (appointments s)
                   = Some existing
               \<and> a_status existing = PENDING))
       \<and> (find (\<lambda>p. pt_user_id p = Some userId) (patients s) = Some patient
            \<and> find (\<lambda>a. a_id a = appointmentId \<and> a_patient_id a = pt_id patient) (appointments s)
                = Some existing
            \<and> a_status existing \<noteq> PENDING \<longrightarrow>
            updateAppointmentStatusService now fmt userId appointmentId body s
              = (Inl (Error ''Only pending appointments can be cancelled''), s))"
proof (intro conjI impI)
  assume ok: "updateAppointmentStatusService now fmt userId appointmentId body s = (Inr r, s')"
  show "\<exists>patient existing.
               find (\<lambda>p. pt_user_id p = Some userId) (patients s) = Some patient
               \<and> find (\<lambda>a. a_id a = appointmentId \<and> a_patient_id a = pt_id patient) (appointments s)
                   = Some existing
               \<and> a_status existing = PENDING"
  proof (cases "find (\<lambda>p. pt_user_id p = Some userId) (patients s)")
    case None
    with ok show ?thesis by (simp add: updateAppointmentStatusService_def)
  next
    case (Some patient)
    note pat = this
    show ?thesis
    proof (cases "find (\<lambda>a. a_id a = appointmentId \<and> a_patient_id a = pt_id patient) (appointments s)")
      case None
      with ok pat show ?thesis by (simp add: updateAppointmentStatusService_def)
    next
      case (Some existing)
      with ok pat assms have "a_status existing = PENDING"
        by (cases "a_status existing = PENDING") (simp_all add: updateAppointmentStatusService_def)
      with pat Some show ?thesis by simp
    qed
  qed
next
  assume "find (\<lambda>p. pt_user_id p = Some userId) (patients s) = Some patient
            \<and> find (\<lambda>a. a_id a = appointmentId \<and> a_patient_id a = pt_id patient) (appointments s)
                = Some existing
            \<and> a_status existing \<noteq> PENDING"
  with assms show "updateAppointmentStatusService now fmt userId appointmentId body s
              = (Inl (Error ''Only pending appointments can be cancelled''), s)"
    by (simp add: updateAppointmentStatusService_def)
qed

theorem patient_cancel_only_from_pending_witness:
  "ua_status \<lparr> ua_status = CANCELLED, ua_reason = None \<rparr> = CANCELLED
   \<and> updateAppointmentStatusService 0 (\<lambda>d. ''Friday, January 2, 1970'') ''u-pat'' 42
       \<lparr> ua_status = CANCELLED, ua_reason = None \<rparr> (clinic SCHEDULED)
     = (Inl (Error ''Only pending appointments can be cancelled''), clinic SCHEDULED)
   \<and> fst (updateAppointmentStatusService 0 (\<lambda>d. ''Friday, January 2, 1970'') ''u-pat'' 42
       \<lparr> ua_status = CANCELLED, ua_reason = None \<rparr> (clinic PENDING))
     = Inr \<lparr> a_id = 42, a_patient_id = ''p1'', a_doctor_id = ''d1'',
             a_appointment_date = 90000000, a_time = ''10:00'', a_type = ''checkup'',
             a_note = None, a_status = CANCELLED, a_reason = None \<rparr>"
proof -
  let ?body = "\<lparr> ua_status = CANCELLED, ua_reason = None \<rparr>"
  let ?patient = "\<lparr> pt_id = ''p1'', pt_user_id = Some ''u-pat'', pt_first_name = ''Ann'',
                        pt_last_name = ''Lee'' \<rparr>"
  let ?existing = "\<lparr> a_id = 42, a_patient_id = ''p1'', a_doctor_id = ''d1'',
                      a_appointment_date = 90000000, a_time = ''10:00'',
                      a_type = ''checkup'', a_note = None, a_status = SCHEDULED,
                      a_reason = None \<rparr>"
  have b: "ua_status ?body = CANCELLED" by simp
  have h: "find (\<lambda>p. pt_user_id p = Some ''u-pat'') (patients (clinic SCHEDULED)) = Some ?patient
            \<and> find (\<lambda>a. a_id a = 42 \<and> a_patient_id a = pt_id ?patient)
                 (appointments (clinic SCHEDULED)) = Some ?existing
            \<and> a_status ?existing \<noteq> PENDING"
    by (simp add: clinic_def empty_state_def)
  have ok: "fst (updateAppointmentStatusService 0 (\<lambda>d. ''Friday, January 2, 1970'') ''u-pat'' 42
       ?body (clinic PENDING))
     = Inr \<lparr> a_id = 42, a_patient_id = ''p1'', a_doctor_id = ''d1'',
             a_appointment_date = 90000000, a_time = ''10:00'', a_type = ''checkup'',
             a_note = None, a_status = CANCELLED, a_reason = None \<rparr>"
    by (simp add: updateAppointmentStatusService_def clinic_def empty_state_def update_where_def
        Let_def)
  show ?thesis
    using patient_cancel_only_from_pending [OF b, where now = 0
        and fmt = "\<lambda>d. ''Friday, January 2, 1970''" and userId = "''u-pat''"
        and appointmentId = 42 and s = "clinic SCHEDULED" and patient = ?patient
        and existing = ?existing] h ok
    by simp
qed


text \<open>What a cancellation by the doctor returns and which notifications it creates, in
  the order of creation.\<close>

lemma doctor_cancel_run:
  assumes doctor: "find (\<lambda>d. d_user_id d = Some userId) (doctors s) = Some doctor"
      and appt: "find (\<lambda>a. a_id a = appointmentId \<and> a_doctor_id a = d_id doctor) (appointments s)
                   = Some appointment"
      and uniq: "distinct (map a_id (appointments s))"
      and patient: "find (\<lambda>p. pt_id p = a_patient_id appointment) (patients s) = Some patient"
      and uid: "pt_user_id patient = Some patient_user_id" "patient_user_id \<noteq> []"
      and updated: "updated = appointment\<lparr> a_status := CANCELLED,
                       a_reason := (case reason of None \<Rightarrow> a_reason appointment | Some r \<Rightarrow> Some r) \<rparr>"
  shows "fst (updateDoctorAppointmentStatus now fmt userId appointmentId ''CANCELLED'' reason s)
           = Inr updated"
    and "new_notifications s
           (snd (updateDoctorAppointmentStatus now fmt userId appointmentId ''CANCELLED'' reason s))
         = (if a_appointment_date appointment - now \<le> 2 * day_ms
            then map (doctor_cancel_alert fmt doctor patient updated reason) (adminUsers s)
            else [])
           @ [doctor_status_notice doctor ''CANCELLED'' reason patient_user_id]"
proof -
  let ?f = "\<lambda>a. a\<lparr> a_status := CANCELLED,
                     a_reason := (case reason of None \<Rightarrow> a_reason a | Some r \<Rightarrow> Some r) \<rparr>"
  let ?s1 = "s\<lparr> appointments := update_where (\<lambda>a. a_id a = appointmentId) ?f (appointments s) \<rparr>"
  let ?alerts = "map (doctor_cancel_alert fmt doctor patient updated reason) (adminUsers s)"
  let ?within = "daysDiff (a_appointment_date appointment) now \<le> 2"
  let ?s2 = "if ?within then createNotifications now ?alerts ?s1 else ?s1"
  let ?notice = "doctor_status_notice doctor ''CANCELLED'' reason patient_user_id"
  have byid: "find (\<lambda>a. a_id a = appointmentId) (appointments s) = Some appointment"
    using uniq appt by (rule find_by_key_of_distinct)
  have key: "a_id appointment = appointmentId"
    using find_Some_holds [OF byid] by simp
  have upd: "find (\<lambda>a. a_id a = appointmentId) (appointments ?s1) = Some updated"
    using byid key updated by (simp add: find_update_where_key)
  have run: "updateDoctorAppointmentStatus now fmt userId appointmentId ''CANCELLED'' reason s
      = (Inr updated, snd (createNotification now ?notice ?s2))"
    using doctor appt upd patient uid updated
    by (simp add: updateDoctorAppointmentStatus_def status_of_string_def Let_def adminUsers_def)
  show "fst (updateDoctorAppointmentStatus now fmt userId appointmentId ''CANCELLED'' reason s)
           = Inr updated"
    using run by simp
  have rows2: "notifications ?s2
      = notifications s @ notification_rows now (notification_seq s) (if ?within then ?alerts else [])"
    by (simp add: createNotifications_rows)
  have "notifications (snd (createNotification now ?notice ?s2))
      = notifications s @ (notification_rows now (notification_seq s) (if ?within then ?alerts else [])
          @ notification_rows now (notification_seq ?s2) [?notice])"
    using rows2 by simp
  then have "new_notifications s (snd (createNotification now ?notice ?s2))
      = (if ?within then ?alerts else []) @ [?notice]"
    by (simp add: new_notifications_append del: notification_rows.simps)
  then show "new_notifications s
           (snd (updateDoctorAppointmentStatus now fmt userId appointmentId ''CANCELLED'' reason s))
         = (if a_appointment_date appointment - now \<le> 2 * day_ms then ?alerts else []) @ [?notice]"
    using run by (simp add: daysDiff_le)
qed

text \<open>The same for a cancellation by the patient.\<close>

lemma patient_cancel_run:
  assumes patient: "find (\<lambda>p. pt_user_id p = Some userId) (patients s) = Some patient"
      and appt: "find (\<lambda>a. a_id a = appointmentId \<and> a_patient_id a = pt_id patient) (appointments s)
                   = Some existing"
      and pending: "a_status existing = PENDING"
      and doctor: "find (\<lambda>d. d_id d = a_doctor_id existing) (doctors s) = Some doctor"
      and uid: "d_user_id doctor = Some doctor_user_id" "doctor_user_id \<noteq> []"
  shows "\<exists>updated. fst (updateAppointmentStatusService now fmt userId appointmentId
                         \<lparr> ua_status = CANCELLED, ua_reason = reason \<rparr> s) = Inr updated
                    \<and> a_status updated = CANCELLED"
    and "new_notifications s
           (snd (updateAppointmentStatusService now fmt userId appointmentId
                   \<lparr> ua_status = CANCELLED, ua_reason = reason \<rparr> s))
         = patient_cancel_notice fmt patient existing reason doctor_user_id
           # (if a_appointment_date existing - now \<le> 1 * day_ms
              then map (patient_cancel_alert fmt patient existing doctor) (adminUsers s)
              else [])"
proof -
  let ?f = "\<lambda>a. a\<lparr> a_status := CANCELLED,
                     a_reason := (case reason of None \<Rightarrow> a_reason a | Some r \<Rightarrow> Some r) \<rparr>"
  let ?s1 = "s\<lparr> appointments := update_where (\<lambda>a. a_id a = appointmentId) ?f (appointments s) \<rparr>"
  let ?notice = "patient_cancel_notice fmt patient existing reason doctor_user_id"
  let ?alerts = "map (patient_cancel_alert fmt patient existing doctor) (adminUsers s)"
  let ?within = "daysDiff (a_appointment_date existing) now \<le> 1"
  let ?s2 = "snd (createNotification now ?notice ?s1)"
  let ?s3 = "if ?within then createNotifications now ?alerts ?s2 else ?s2"
  obtain b where byid: "find (\<lambda>a. a_id a = appointmentId) (appointments s) = Some b"
    using find_by_key_exists [OF appt] by blast
  have key: "a_id b = appointmentId"
    using find_Some_holds [OF byid] by simp
  have upd: "find (\<lambda>a. a_id a = appointmentId) (appointments ?s1) = Some (?f b)"
    using byid key by (simp add: find_update_where_key)
  have run: "updateAppointmentStatusService now fmt userId appointmentId
                \<lparr> ua_status = CANCELLED, ua_reason = reason \<rparr> s = (Inr (?f b), ?s3)"
    using patient appt pending doctor uid upd
    by (simp add: updateAppointmentStatusService_def Let_def adminUsers_def)
  show "\<exists>updated. fst (updateAppointmentStatusService now fmt userId appointmentId
                         \<lparr> ua_status = CANCELLED, ua_reason = reason \<rparr> s) = Inr updated
                    \<and> a_status updated = CANCELLED"
    using run by simp
  have "notifications ?s3
      = notifications s @ (notification_rows now (notification_seq s) [?notice]
          @ notification_rows now (notification_seq ?s2) (if ?within then ?alerts else []))"
    by (simp add: createNotifications_rows)
  then have "new_notifications s ?s3 = ?notice # (if ?within then ?alerts else [])"
    by (simp add: new_notifications_append del: notification_rows.simps)
  then show "new_notifications s
           (snd (updateAppointmentStatusService now fmt userId appointmentId
                   \<lparr> ua_status = CANCELLED, ua_reason = reason \<rparr> s))
         = ?notice # (if a_appointment_date existing - now \<le> 1 * day_ms then ?alerts else [])"
    using run by (simp add: daysDiff_le)
qed

text \<open>
  What the two cancellations create. Cancellation by the doctor, for a doctor profile of the
  caller, an appointment of that doctor and a patient linked to a user account: the call
  returns the appointment with status \<open>CANCELLED\<close>; the notifications it creates are one
  alert \<open>Doctor Cancelled Appointment\<close> for each user of role \<open>ADMIN\<close> exactly when the
  appointment date is at most 2 days after \<open>now\<close>, which is the test of the source,
  \<open>Math.ceil((date - now) / day) \<le> 2\<close>, and is true of every date in the past; and the
  message \<open>Appointment Cancelled\<close> for the user of the patient, whose text carries
  \<open>Reason: r\<close> when a non-empty reason \<open>r\<close> is given.
  Cancellation by the patient, for a pending appointment of the caller whose doctor is
  linked to a user account: the call returns the appointment with status \<open>CANCELLED\<close>;
  the notifications it creates are the message \<open>Appointment Cancelled by Patient\<close> for
  the user of the doctor and one alert \<open>Urgent: Same-Day Appointment Cancellation\<close> for
  each user of role \<open>ADMIN\<close> exactly when the appointment date is at most 1 day after
  \<open>now\<close>.
\<close>

lemma cancellation_notifications:
  "(find (\<lambda>d. d_user_id d = Some userId) (doctors s) = Some doctor
    \<and> find (\<lambda>a. a_id a = appointmentId \<and> a_doctor_id a = d_id doctor) (appointments s)
        = Some appointment
    \<and> distinct (map a_id (appointments s))
    \<and> find (\<lambda>p. pt_id p = a_patient_id appointment) (patients s) = Some patient
    \<and> pt_user_id patient = Some patient_user_id \<and> patient_user_id \<noteq> []
    \<and> updated = appointment\<lparr> a_status := CANCELLED,
          a_reason := (case reason of None \<Rightarrow> a_reason appointment | Some r \<Rightarrow> Some r) \<rparr>
    \<longrightarrow>
      fst (updateDoctorAppointmentStatus now fmt userId appointmentId ''CANCELLED'' reason s)
        = Inr updated
      \<and> new_notifications s
          (snd (updateDoctorAppointmentStatus now fmt userId appointmentId ''CANCELLED'' reason s))
        = (if a_appointment_date appointment - now \<le> 2 * day_ms
           then map (doctor_cancel_alert fmt doctor patient updated reason) (adminUsers s)
           else [])
          @ [doctor_status_notice doctor ''CANCELLED'' reason patient_user_id]
      \<and> map (\<lambda>n. (nd_userId n, nd_title n))
          (new_notifications s
            (snd (updateDoctorAppointmentStatus now fmt userId appointmentId ''CANCELLED'' reason s)))
        = (if a_appointment_date appointment - now \<le> 2 * day_ms
           then map (\<lambda>admin. (u_id admin, '':rotating_light: Doctor Cancelled Appointment''))
                  (adminUsers s)
           else [])
          @ [(patient_user_id, '':x: Appointment Cancelled'')]
      \<and> (reason = Some r \<and> r \<noteq> [] \<longrightarrow>
            nd_message (doctor_status_notice doctor ''CANCELLED'' reason patient_user_id)
              = ''Unfortunately, your appointment with Dr. '' @ d_name doctor
                  @ '' has been cancelled. Reason: '' @ r))
   \<and> (find (\<lambda>p. pt_user_id p = Some patientUserId) (patients s) = Some caller
      \<and> find (\<lambda>a. a_id a = appointmentId \<and> a_patient_id a = pt_id caller) (appointments s)
          = Some existing
      \<and> a_status existing = PENDING
      \<and> find (\<lambda>d. d_id d = a_doctor_id existing) (doctors s) = Some treating
      \<and> d_user_id treating = Some doctor_user_id \<and> doctor_user_id \<noteq> []
      \<longrightarrow>
        (\<exists>cancelled.
           fst (updateAppointmentStatusService now fmt patientUserId appointmentId
                  \<lparr> ua_status = CANCELLED, ua_reason = reason \<rparr> s) = Inr cancelled
           \<and> a_status cancelled = CANCELLED)
        \<and> new_notifications s
            (snd (updateAppointmentStatusService now fmt patientUserId appointmentId
                    \<lparr> ua_status = CANCELLED, ua_reason = reason \<rparr> s))
          = patient_cancel_notice fmt caller existing reason doctor_user_id
            # (if a_appointment_date existing - now \<le> 1 * day_ms
               then map (patient_cancel_alert fmt caller existing treating) (adminUsers s)
               else [])
        \<and> map (\<lambda>n. (nd_userId n, nd_title n))
            (new_notifications s
              (snd (updateAppointmentStatusService now fmt patientUserId appointmentId
                      \<lparr> ua_status = CANCELLED, ua_reason = reason \<rparr> s)))
          = (doctor_user_id, '':no_entry_sign: Appointment Cancelled by Patient'')
            # (if a_appointment_date existing - now \<le> 1 * day_ms
               then map (\<lambda>admin. (u_id admin,
                           '':warning: Urgent: Same-Day Appointment Cancellation''))
                      (adminUsers s)
               else []))"
proof (intro conjI impI; (elim conjE)?)
  assume h: "find (\<lambda>d. d_user_id d = Some userId) (doctors s) = Some doctor"
    "find (\<lambda>a. a_id a = appointmentId \<and> a_doctor_id a = d_id doctor) (appointments s)
        = Some appointment"
    "distinct (map a_id (appointments s))"
    "find (\<lambda>p. pt_id p = a_patient_id appointment) (patients s) = Some patient"
    "pt_user_id patient = Some patient_user_id" "patient_user_id \<noteq> []"
    "updated = appointment\<lparr> a_status := CANCELLED,
          a_reason := (case reason of None \<Rightarrow> a_reason appointment | Some r \<Rightarrow> Some r) \<rparr>"
  show "fst (updateDoctorAppointmentStatus now fmt userId appointmentId ''CANCELLED'' reason s)
        = Inr updated"
    using h by (rule doctor_cancel_run(1))
  have new: "new_notifications s
          (snd (updateDoctorAppointmentStatus now fmt userId appointmentId ''CANCELLED'' reason s))
        = (if a_appointment_date appointment - now \<le> 2 * day_ms
           then map (doctor_cancel_alert fmt doctor patient updated reason) (adminUsers s)
           else [])
          @ [doctor_status_notice doctor ''CANCELLED'' reason patient_user_id]"
    using h by (rule doctor_cancel_run(2))
  then show "new_notifications s
          (snd (updateDoctorAppointmentStatus now fmt userId appointmentId ''CANCELLED'' reason s))
        = (if a_appointment_date appointment - now \<le> 2 * day_ms
           then map (doctor_cancel_alert fmt doctor patient updated reason) (adminUsers s)
           else [])
          @ [doctor_status_notice doctor ''CANCELLED'' reason patient_user_id]" .
  show "map (\<lambda>n. (nd_userId n, nd_title n))
          (new_notifications s
            (snd (updateDoctorAppointmentStatus now fmt userId appointmentId ''CANCELLED'' reason s)))
        = (if a_appointment_date appointment - now \<le> 2 * day_ms
           then map (\<lambda>admin. (u_id admin, '':rotating_light: Doctor Cancelled Appointment''))
                  (adminUsers s)
           else [])
          @ [(patient_user_id, '':x: Appointment Cancelled'')]"
    unfolding new by (simp add: doctor_cancel_alert_def doctor_status_notice_def comp_def)
next
  assume "reason = Some r" "r \<noteq> []"
  then show "nd_message (doctor_status_notice doctor ''CANCELLED'' reason patient_user_id)
              = ''Unfortunately, your appointment with Dr. '' @ d_name doctor
                  @ '' has been cancelled. Reason: '' @ r"
    by (simp add: doctor_status_notice_def reason_text_def)
next
  assume h: "find (\<lambda>p. pt_user_id p = Some patientUserId) (patients s) = Some caller"
    "find (\<lambda>a. a_id a = appointmentId \<and> a_patient_id a = pt_id caller) (appointments s)
          = Some existing"
    "a_status existing = PENDING"
    "find (\<lambda>d. d_id d = a_doctor_id existing) (doctors s) = Some treating"
    "d_user_id treating = Some doctor_user_id" "doctor_user_id \<noteq> []"
  show "\<exists>cancelled.
           fst (updateAppointmentStatusService now fmt patientUserId appointmentId
                  \<lparr> ua_status = CANCELLED, ua_reason = reason \<rparr> s) = Inr cancelled
           \<and> a_status cancelled = CANCELLED"
    using h by (rule patient_cancel_run(1))
  have new: "new_notifications s
            (snd (updateAppointmentStatusService now fmt patientUserId appointmentId
                    \<lparr> ua_status = CANCELLED, ua_reason = reason \<rparr> s))
          = patient_cancel_notice fmt caller existing reason doctor_user_id
            # (if a_appointment_date existing - now \<le> 1 * day_ms
               then map (patient_cancel_alert fmt caller existing treating) (adminUsers s)
               else [])"
    using h by (rule patient_cancel_run(2))
  then show "new_notifications s
            (snd (updateAppointmentStatusService now fmt patientUserId appointmentId
                    \<lparr> ua_status = CANCELLED, ua_reason = reason \<rparr> s))
          = patient_cancel_notice fmt caller existing reason doctor_user_id
            # (if a_appointment_date existing - now \<le> 1 * day_ms
               then map (patient_cancel_alert fmt caller existing treating) (adminUsers s)
               else [])" .
  show "map (\<lambda>n. (nd_userId n, nd_title n))
            (new_notifications s
              (snd (updateAppointmentStatusService now fmt patientUserId appointmentId
                      \<lparr> ua_status = CANCELLED, ua_reason = reason \<rparr> s)))
          = (doctor_user_id, '':no_entry_sign: Appointment Cancelled by Patient'')
            # (if a_appointment_date existing - now \<le> 1 * day_ms
               then map (\<lambda>admin. (u_id admin,
                           '':warning: Urgent: Same-Day Appointment Cancellation''))
                      (adminUsers s)
               else [])"
    unfolding new by (simp add: patient_cancel_alert_def patient_cancel_notice_def comp_def)
qed

lemma cancellation_notifications_example:
  "map (\<lambda>n. (nd_userId n, nd_title n))
     (new_notifications (clinic SCHEDULED)
        (snd (updateDoctorAppointmentStatus 0 (\<lambda>d. ''Friday, January 2, 1970'') ''u-doc'' 42
                ''CANCELLED'' (Some ''emergency'') (clinic SCHEDULED))))
     = [(''u-admin'', '':rotating_light: Doctor Cancelled Appointment''),
        (''u-pat'', '':x: Appointment Cancelled'')]
   \<and> map (\<lambda>n. (nd_userId n, nd_title n))
     (new_notifications (clinic SCHEDULED)
        (snd (updateDoctorAppointmentStatus (- 90000000) (\<lambda>d. ''Friday, January 2, 1970'') ''u-doc'' 42
                ''CANCELLED'' (Some ''emergency'') (clinic SCHEDULED))))
     = [(''u-pat'', '':x: Appointment Cancelled'')]
   \<and> map (\<lambda>n. (nd_userId n, nd_title n))
     (new_notifications (clinic PENDING)
        (snd (updateAppointmentStatusService 10000000 (\<lambda>d. ''Friday, January 2, 1970'') ''u-pat'' 42
                \<lparr> ua_status = CANCELLED, ua_reason = None \<rparr> (clinic PENDING))))
     = [(''u-doc'', '':no_entry_sign: Appointment Cancelled by Patient''),
        (''u-admin'', '':warning: Urgent: Same-Day Appointment Cancellation'')]
   \<and> map (\<lambda>n. (nd_userId n, nd_title n))
     (new_notifications (clinic PENDING)
        (snd (updateAppointmentStatusService 0 (\<lambda>d. ''Friday, January 2, 1970'') ''u-pat'' 42
                \<lparr> ua_status = CANCELLED, ua_reason = None \<rparr> (clinic PENDING))))
     = [(''u-doc'', '':no_entry_sign: Appointment Cancelled by Patient'')]"
proof -
  let ?fmt = "\<lambda>d::int. ''Friday, January 2, 1970''"
  let ?doctor = "\<lparr> d_id = ''d1'', d_user_id = Some ''u-doc'', d_name = ''Roe'',
                   d_specialization = ''ENT'' \<rparr>"
  let ?patient = "\<lparr> pt_id = ''p1'', pt_user_id = Some ''u-pat'', pt_first_name = ''Ann'',
                    pt_last_name = ''Lee'' \<rparr>"
  let ?appt = "\<lambda>st. \<lparr> a_id = 42, a_patient_id = ''p1'', a_doctor_id = ''d1'',
                   a_appointment_date = 90000000, a_time = ''10:00'',
                   a_type = ''checkup'', a_note = None, a_status = st, a_reason = None \<rparr>"
  let ?updated = "(?appt SCHEDULED)\<lparr> a_status := CANCELLED, a_reason := Some ''emergency'' \<rparr>"
  have hd: "find (\<lambda>d. d_user_id d = Some ''u-doc'') (doctors (clinic SCHEDULED)) = Some ?doctor
    \<and> find (\<lambda>a. a_id a = 42 \<and> a_doctor_id a = d_id ?doctor) (appointments (clinic SCHEDULED))
        = Some (?appt SCHEDULED)
    \<and> distinct (map a_id (appointments (clinic SCHEDULED)))
    \<and> find (\<lambda>p. pt_id p = a_patient_id (?appt SCHEDULED)) (patients (clinic SCHEDULED))
        = Some ?patient
    \<and> pt_user_id ?patient = Some ''u-pat'' \<and> ''u-pat'' \<noteq> []
    \<and> ?updated = (?appt SCHEDULED)\<lparr> a_status := CANCELLED,
          a_reason := (case Some ''emergency'' of
                         None \<Rightarrow> a_reason (?appt SCHEDULED) | Some r \<Rightarrow> Some r) \<rparr>"
    by (simp add: clinic_def empty_state_def)
  have hp: "find (\<lambda>p. pt_user_id p = Some ''u-pat'') (patients (clinic PENDING)) = Some ?patient
      \<and> find (\<lambda>a. a_id a = 42 \<and> a_patient_id a = pt_id ?patient) (appointments (clinic PENDING))
          = Some (?appt PENDING)
      \<and> a_status (?appt PENDING) = PENDING
      \<and> find (\<lambda>d. d_id d = a_doctor_id (?appt PENDING)) (doctors (clinic PENDING)) = Some ?doctor
      \<and> d_user_id ?doctor = Some ''u-doc'' \<and> ''u-doc'' \<noteq> []"
    by (simp add: clinic_def empty_state_def)
  note near = cancellation_notifications [where s = "clinic SCHEDULED" and userId = "''u-doc''"
      and doctor = ?doctor and appointmentId = 42 and appointment = "?appt SCHEDULED"
      and patient = ?patient and patient_user_id = "''u-pat''" and updated = ?updated
      and reason = "Some ''emergency''" and now = 0 and fmt = ?fmt, THEN conjunct1, THEN mp, OF hd]
  note far = cancellation_notifications [where s = "clinic SCHEDULED" and userId = "''u-doc''"
      and doctor = ?doctor and appointmentId = 42 and appointment = "?appt SCHEDULED"
      and patient = ?patient and patient_user_id = "''u-pat''" and updated = ?updated
      and reason = "Some ''emergency''" and now = "- 90000000" and fmt = ?fmt,
      THEN conjunct1, THEN mp, OF hd]
  note same_day = cancellation_notifications [where s = "clinic PENDING"
      and patientUserId = "''u-pat''" and caller = ?patient and appointmentId = 42
      and existing = "?appt PENDING" and treating = ?doctor and doctor_user_id = "''u-doc''"
      and reason = None and now = 10000000 and fmt = ?fmt, THEN conjunct2, THEN mp, OF hp]
  note later = cancellation_notifications [where s = "clinic PENDING"
      and patientUserId = "''u-pat''" and caller = ?patient and appointmentId = 42
      and existing = "?appt PENDING" and treating = ?doctor and doctor_user_id = "''u-doc''"
      and reason = None and now = 0 and fmt = ?fmt, THEN conjunct2, THEN mp, OF hp]
  have admins: "adminUsers (clinic st) = [\<lparr> u_id = ''u-admin'', u_role = ''ADMIN'' \<rparr>]" for st
    by (simp add: adminUsers_def clinic_def empty_state_def)
  show ?thesis
    using near [THEN conjunct2, THEN conjunct2, THEN conjunct1]
      far [THEN conjunct2, THEN conjunct2, THEN conjunct1]
      same_day [THEN conjunct2, THEN conjunct2]
      later [THEN conjunct2, THEN conjunct2]
    by (simp add: admins day_ms_def)
qed

text \<open>
  Claim C7, evaluated where it fails. Appointment 42 is dated at millisecond 90 000 000 and
  the cancellation happens at millisecond 10 000 000 000, more than 114 days later, so the
  appointment date is within neither 2 days nor 1 day of \<open>now\<close>. The doctor cancels the
  appointment: the urgent alert for the admin is created all the same. The patient cancels
  the appointment, still pending: the urgent alert for the admin is created as well. The
  test \<open>Math.ceil((date - now) / day) \<le> N\<close> has no lower bound, and the difference, here
  -114 days, passes it.
\<close>

theorem cancel_of_past_appointment_alerts_admins:
  "\<bar>90000000 - 10000000000\<bar> > 2 * day_ms
   \<and> daysDiff 90000000 10000000000 = - 114
   \<and> map (\<lambda>n. (nd_userId n, nd_title n))
       (new_notifications (clinic SCHEDULED)
          (snd (updateDoctorAppointmentStatus 10000000000 (\<lambda>d. ''Friday, January 2, 1970'')
                  ''u-doc'' 42 ''CANCELLED'' (Some ''emergency'') (clinic SCHEDULED))))
       = [(''u-admin'', '':rotating_light: Doctor Cancelled Appointment''),
          (''u-pat'', '':x: Appointment Cancelled'')]
   \<and> map (\<lambda>n. (nd_userId n, nd_title n))
       (new_notifications (clinic PENDING)
          (snd (updateAppointmentStatusService 10000000000 (\<lambda>d. ''Friday, January 2, 1970'')
                  ''u-pat'' 42 \<lparr> ua_status = CANCELLED, ua_reason = None \<rparr> (clinic PENDING))))
       = [(''u-doc'', '':no_entry_sign: Appointment Cancelled by Patient''),
          (''u-admin'', '':warning: Urgent: Same-Day Appointment Cancellation'')]"
  by code_simp

text \<open>
  Claim C5, evaluated where it fails. A doctor cancels appointment 42, dated about one day
  ahead, in a clinic with one admin. The alert for the admin is created first (key 0) and
  the cancellation message for the patient after it (key 1); the log of store writes has
  the same order. On the cancellation by the patient the order is the one of the claim:
  the message for the doctor first, the alert for the admin after it.
\<close>

theorem doctor_cancel_alerts_admin_before_patient:
  "map (\<lambda>n. (n_id n, n_userId n, n_title n))
     (notifications
        (snd (updateDoctorAppointmentStatus 0 (\<lambda>d. ''Friday, January 2, 1970'') ''u-doc'' 42
                ''CANCELLED'' (Some ''emergency'') (clinic SCHEDULED))))
     = [(0, ''u-admin'', '':rotating_light: Doctor Cancelled Appointment''),
        (1, ''u-pat'', '':x: Appointment Cancelled'')]
   \<and> effects
        (snd (updateDoctorAppointmentStatus 0 (\<lambda>d. ''Friday, January 2, 1970'') ''u-doc'' 42
                ''CANCELLED'' (Some ''emergency'') (clinic SCHEDULED)))
     = [Persisted 0, Persisted 1]
   \<and> map (\<lambda>n. (n_id n, n_userId n, n_title n))
     (notifications
        (snd (updateAppointmentStatusService 10000000 (\<lambda>d. ''Friday, January 2, 1970'') ''u-pat'' 42
                \<lparr> ua_status = CANCELLED, ua_reason = None \<rparr> (clinic PENDING))))
     = [(0, ''u-doc'', '':no_entry_sign: Appointment Cancelled by Patient''),
        (1, ''u-admin'', '':warning: Urgent: Same-Day Appointment Cancellation'')]"
  by code_simp

section \<open>Consistency of the cached total\<close>

text \<open>
  Claim C1, evaluated where it fails. In \<open>two_invoices\<close> both invoices are consistent, and
  line 7 belongs to the invoice of appointment 2. Deleting line 7 through appointment 1
  succeeds: the line is removed, the invoice of appointment 1 is recomputed, and the
  invoice of appointment 2 keeps \<open>total_amount = 100\<close> although it has no line left.
  Editing line 7 through appointment 1 does the same: the line costs 300 afterwards and
  the invoice of appointment 2 still says 100.
\<close>

theorem line_of_other_invoice_leaves_stale_total:
  "invoice_consistent two_invoices (payments two_invoices ! 0)
   \<and> invoice_consistent two_invoices (payments two_invoices ! 1)
   \<and> fst (deleteBillFromAppointment 1 7 two_invoices) = Inr True
   \<and> map (\<lambda>p. (p_id p, p_total_amount p))
       (payments (snd (deleteBillFromAppointment 1 7 two_invoices))) = [(1, Finite 0), (2, Finite 100)]
   \<and> bills (snd (deleteBillFromAppointment 1 7 two_invoices)) = []
   \<and> invoice_consistent (snd (deleteBillFromAppointment 1 7 two_invoices))
       (payments (snd (deleteBillFromAppointment 1 7 two_invoices)) ! 1) = False
   \<and> map (\<lambda>p. (p_id p, p_total_amount p))
       (payments (snd (editBillInAppointment 1 7
          \<lparr> eb_service_id = None, eb_quantity = Some 3, eb_service_date = None \<rparr> two_invoices)))
       = [(1, Finite 0), (2, Finite 100)]
   \<and> map (\<lambda>b. (b_id b, b_bill_id b, b_total_cost b))
       (bills (snd (editBillInAppointment 1 7
          \<lparr> eb_service_id = None, eb_quantity = Some 3, eb_service_date = None \<rparr> two_invoices)))
       = [(7, 2, Finite 300)]"
  by code_simp


text \<open>What does hold of the cached total. \<open>recalculatePaymentSummary\<close> writes
  \<open>total_amount\<close> of the payment with the given key and nothing else, so the discount
  and the finalized flag of every payment, and all lines, are as before.\<close>

lemma update_where_no_match:
  "\<forall>x \<in> set xs. \<not> P x \<Longrightarrow> update_where P f xs = xs"
  by (induction xs) (simp_all add: update_where_def)

lemma recalculate_state:
  "snd (recalculatePaymentSummary paymentId s)
     = s\<lparr> payments := update_where (\<lambda>p. p_id p = paymentId)
           (\<lambda>p. p\<lparr> p_total_amount := bills_total (bills_of s paymentId) \<rparr>)
           (payments s) \<rparr>"
proof (cases "find (\<lambda>p. p_id p = paymentId) (payments s)")
  case None
  then have "\<forall>p \<in> set (payments s). \<not> p_id p = paymentId"
    by (simp add: find_None_iff)
  then show ?thesis
    using None by (simp add: recalculatePaymentSummary_def update_where_no_match)
next
  case (Some payment)
  then show ?thesis
    by (simp add: recalculatePaymentSummary_def Let_def)
qed

lemma recalculate_writes_only_total:
  "map p_discount (payments (snd (recalculatePaymentSummary paymentId s)))
     = map p_discount (payments s)"
  "map p_finalized (payments (snd (recalculatePaymentSummary paymentId s)))
     = map p_finalized (payments s)"
  "map (\<lambda>p. p\<lparr> p_total_amount := Finite 0 \<rparr>) (payments (snd (recalculatePaymentSummary paymentId s)))
     = map (\<lambda>p. p\<lparr> p_total_amount := Finite 0 \<rparr>) (payments s)"
  "bills (snd (recalculatePaymentSummary paymentId s)) = bills s"
  by (simp_all add: recalculate_state update_where_def comp_def)

lemma recalculate_consistent:
  assumes "find (\<lambda>p. p_appointment_id p = a) (payments s) = Some payment"
  shows "\<exists>p'. find (\<lambda>p. p_appointment_id p = a)
                 (payments (snd (recalculatePaymentSummary (p_id payment) s))) = Some p'
              \<and> p_id p' = p_id payment
              \<and> invoice_consistent (snd (recalculatePaymentSummary (p_id payment) s)) p'"
  using assms
  by (simp add: recalculate_state find_update_where_key invoice_consistent_def bills_of_def)

text \<open>After a successful \<open>addBillToAppointment\<close>, \<open>editBillInAppointment\<close>,
  \<open>deleteBillFromAppointment\<close> or \<open>editFinalBillSummary\<close> the invoice of the appointment
  the call names is consistent.\<close>

lemma consistent_frame:
  "payments s' = payments s \<Longrightarrow> bills s' = bills s \<Longrightarrow>
   invoice_consistent s' p = invoice_consistent s p"
  by (simp add: invoice_consistent_def bills_of_def)

lemma addBill_consistent:
  assumes "fst (addBillToAppointment now a input s) = Inr bill"
  shows "\<exists>p'. find (\<lambda>p. p_appointment_id p = a)
                 (payments (snd (addBillToAppointment now a input s))) = Some p'
              \<and> invoice_consistent (snd (addBillToAppointment now a input s)) p'"
proof -
  from assms obtain billAppointment where
    ap: "find (\<lambda>x. a_id x = a) (appointments s) = Some billAppointment"
    by (cases "find (\<lambda>x. a_id x = a) (appointments s)") (simp_all add: addBill_outcome)
  from assms ap obtain service where
    sv: "find (\<lambda>sv. s_id sv = ab_service_id input) (service_catalog s) = Some service"
    by (cases "find (\<lambda>sv. s_id sv = ab_service_id input) (service_catalog s)")
       (simp_all add: addBill_outcome)
  let ?s1 = "case find (\<lambda>p. p_appointment_id p = a) (payments s) of
               Some payment \<Rightarrow> s
             | None \<Rightarrow>
                 s\<lparr> payments := payments s @
                      [\<lparr> p_id = payment_seq s, p_appointment_id = a,
                         p_patient_id = a_patient_id billAppointment, p_bill_date = now,
                         p_payment_date = now, p_discount = Finite 0, p_total_amount = Finite 0,
                         p_amount_paid = Finite 0, p_payment_method = ''CASH'', p_status = ''UNPAID'',
                         p_finalized = False \<rparr>],
                    payment_seq := payment_seq s + 1 \<rparr>"
  obtain payment where pm: "find (\<lambda>p. p_appointment_id p = a) (payments ?s1) = Some payment"
    by (cases "find (\<lambda>p. p_appointment_id p = a) (payments s)") (simp_all add: find_append_case)
  have cat: "service_catalog ?s1 = service_catalog s"
    by (simp split: option.split)
  let ?bill = "\<lparr> b_id = bill_seq ?s1, b_bill_id = p_id payment,
                  b_service_id = ab_service_id input, b_service_date = ab_service_date input,
                  b_quantity = ab_quantity input, b_unit_cost = s_price service,
                  b_total_cost = js_mul (s_price service) (number_of_int (ab_quantity input)) \<rparr>"
  let ?s2 = "?s1\<lparr> bills := bills ?s1 @ [?bill], bill_seq := bill_seq ?s1 + 1 \<rparr>"
  let ?s3 = "snd (recalculatePaymentSummary (p_id payment) ?s2)"
  have pm2: "find (\<lambda>p. p_appointment_id p = a) (payments ?s2) = Some payment"
    using pm by simp
  from recalculate_consistent [OF pm2] obtain p' where
    p': "find (\<lambda>p. p_appointment_id p = a) (payments ?s3) = Some p'" "invoice_consistent ?s3 p'"
    by blast
  have fin: "payments (snd (addBillToAppointment now a input s)) = payments ?s3
      \<and> bills (snd (addBillToAppointment now a input s)) = bills ?s3"
    using ap pm sv cat
    by (simp add: addBillToAppointment_def Let_def split: option.split)
  show ?thesis
    using p' fin consistent_frame [of "snd (addBillToAppointment now a input s)" ?s3 p']
    by simp
qed

lemma deleteBill_consistent:
  assumes "fst (deleteBillFromAppointment a billId s) = Inr ok"
  shows "\<exists>p'. find (\<lambda>p. p_appointment_id p = a)
                 (payments (snd (deleteBillFromAppointment a billId s))) = Some p'
              \<and> invoice_consistent (snd (deleteBillFromAppointment a billId s)) p'"
proof -
  from assms obtain payment where
    pm: "find (\<lambda>p. p_appointment_id p = a) (payments s) = Some payment"
    by (cases "find (\<lambda>p. p_appointment_id p = a) (payments s)") (simp_all add: deleteBill_outcome)
  from assms pm obtain bill where bl: "find (\<lambda>b. b_id b = billId) (bills s) = Some bill"
    by (cases "find (\<lambda>b. b_id b = billId) (bills s)") (simp_all add: deleteBill_outcome)
  let ?s1 = "s\<lparr> bills := delete_where (\<lambda>b. b_id b = billId) (bills s) \<rparr>"
  have pm1: "find (\<lambda>p. p_appointment_id p = a) (payments ?s1) = Some payment"
    using pm by simp
  have run: "snd (deleteBillFromAppointment a billId s)
      = snd (recalculatePaymentSummary (p_id payment) ?s1)"
    using pm bl by (simp add: deleteBillFromAppointment_def Let_def)
  show ?thesis
    unfolding run by (rule recalculate_consistent [OF pm1, THEN exE]) blast
qed

lemma editBill_consistent:
  assumes "fst (editBillInAppointment a billId data s) = Inr updatedBill"
  shows "\<exists>p'. find (\<lambda>p. p_appointment_id p = a)
                 (payments (snd (editBillInAppointment a billId data s))) = Some p'
              \<and> invoice_consistent (snd (editBillInAppointment a billId data s)) p'"
proof -
  from assms obtain payment where
    pm: "find (\<lambda>p. p_appointment_id p = a) (payments s) = Some payment"
    by (cases "find (\<lambda>p. p_appointment_id p = a) (payments s)") (simp_all add: editBill_outcome)
  from assms pm obtain bill where bl: "find (\<lambda>b. b_id b = billId) (bills s) = Some bill"
    by (cases "find (\<lambda>b. b_id b = billId) (bills s)") (simp_all add: editBill_outcome)
  from assms pm bl obtain u1 where
    st: "edit_service_step s bill data
           \<lparr> bu_service_id = None, bu_unit_cost = None, bu_total_cost = None,
             bu_quantity = None, bu_service_date = None \<rparr> = Inr u1"
    by (cases "edit_service_step s bill data
           \<lparr> bu_service_id = None, bu_unit_cost = None, bu_total_cost = None,
             bu_quantity = None, bu_service_date = None \<rparr>") (simp_all add: editBill_outcome)
  let ?s1 = "s\<lparr> bills := update_where (\<lambda>b. b_id b = billId)
               (apply_bill_update (edit_date_step data (edit_quantity_step bill data u1)))
               (bills s) \<rparr>"
  from assms pm bl st obtain ub where
    ub: "find (\<lambda>b. b_id b = billId) (bills ?s1) = Some ub"
    by (cases "find (\<lambda>b. b_id b = billId) (bills ?s1)") (simp_all add: editBill_outcome)
  have pm1: "find (\<lambda>p. p_appointment_id p = a) (payments ?s1) = Some payment"
    using pm by simp
  have run: "snd (editBillInAppointment a billId data s)
      = snd (recalculatePaymentSummary (p_id payment) ?s1)"
    using pm bl st ub by (simp add: editBillInAppointment_def Let_def)
  show ?thesis
    unfolding run by (rule recalculate_consistent [OF pm1, THEN exE]) blast
qed

lemma editFinalBillSummary_consistent:
  assumes "fst (editFinalBillSummary a data s) = Inr r"
  shows "\<exists>p'. find (\<lambda>p. p_appointment_id p = a)
                 (payments (snd (editFinalBillSummary a data s))) = Some p'
              \<and> invoice_consistent (snd (editFinalBillSummary a data s)) p'"
proof -
  from assms obtain payment where
    pm: "find (\<lambda>p. p_appointment_id p = a) (payments s) = Some payment"
    by (cases "find (\<lambda>p. p_appointment_id p = a) (payments s)")
       (simp_all add: editFinalBillSummary_def)
  let ?f = "\<lambda>p. p\<lparr> p_discount := (case ef_discount data of None \<Rightarrow> p_discount p | Some d \<Rightarrow> d),
                     p_bill_date := (case ef_bill_date data of None \<Rightarrow> p_bill_date p | Some d \<Rightarrow> d) \<rparr>"
  let ?s1 = "s\<lparr> payments := update_where (\<lambda>p. p_id p = p_id payment) ?f (payments s) \<rparr>"
  have pm1: "find (\<lambda>p. p_appointment_id p = a) (payments ?s1) = Some (?f payment)"
    using pm by (simp add: find_update_where_key)
  have run: "snd (editFinalBillSummary a data s)
      = snd (recalculatePaymentSummary (p_id (?f payment)) ?s1)"
    using pm by (simp add: editFinalBillSummary_def Let_def)
  show ?thesis
    unfolding run by (rule recalculate_consistent [OF pm1, THEN exE]) blast
qed

end
